theory Spec2Isabelle
  imports Main "HOL-Library.Word"
begin

section \<open>JavaScript values\<close>

text \<open>
  A JavaScript string is a sequence of UTF-16 code units, and \<open>length\<close>, \<open>lastIndexOf\<close> and
  \<open>substring\<close> count code units. A literal of the source is written \<open>js ''...''\<close>.
  An \<open>ArrayBuffer\<close> or \<open>Uint8Array\<close> is a list of bytes.
\<close>

type_synonym jsstring = "16 word list"
type_synonym byte = "8 word"
type_synonym buffer = "byte list"

definition js :: "string \<Rightarrow> jsstring" where
  "js s = map of_char s"

text \<open>A thrown error, with its \<open>message\<close>.\<close>

datatype js_error = RangeError jsstring | TypeError jsstring | Error jsstring

fun error_message :: "js_error \<Rightarrow> jsstring" where
  "error_message (RangeError m) = m"
| "error_message (TypeError m) = m"
| "error_message (Error m) = m"

text \<open>\<open>Array.prototype.includes\<close> on an array of strings.\<close>

definition array_includes :: "jsstring list \<Rightarrow> jsstring \<Rightarrow> bool" where
  "array_includes arr x = (x \<in> set arr)"

text \<open>\<open>String.prototype.includes\<close>: the pattern occurs at some position of the string.\<close>

fun str_includes :: "jsstring \<Rightarrow> jsstring \<Rightarrow> bool" where
  "str_includes [] p = (p = [])"
| "str_includes (c # cs) p = (take (length p) (c # cs) = p \<or> str_includes cs p)"

text \<open>
  \<open>s.lastIndexOf(c)\<close> for a one-unit pattern: the greatest index holding \<open>c\<close>, or \<open>-1\<close>.
\<close>

fun lastIndexOf :: "jsstring \<Rightarrow> 16 word \<Rightarrow> int" where
  "lastIndexOf [] c = - 1"
| "lastIndexOf (x # xs) c =
     (let r = lastIndexOf xs c
      in if 0 \<le> r then r + 1 else if x = c then 0 else - 1)"

text \<open>
  \<open>s.substring(start)\<close>: a negative start counts as 0 and a start beyond the end as the
  length.
\<close>

definition substring :: "jsstring \<Rightarrow> int \<Rightarrow> jsstring" where
  "substring s start = drop (nat (max 0 start)) s"

text \<open>
  \<open>String.prototype.toLowerCase\<close>. The string is read as code points (a surrogate pair is
  one code point, a lone surrogate stands for itself), every code point is replaced by
  its lower-case mapping in the Unicode Character Database, and the result is written
  back as UTF-16. The mappings are the locale-independent ones of UnicodeData.txt and
  SpecialCasing.txt, here those of Unicode 14.0 (a runtime built on a later version also
  maps the code points that version added): U+0130 becomes U+0069 U+0307; the capital
  sigma U+03A3 becomes the final sigma U+03C2 when the nearest code point before it that
  is not case-ignorable is cased and the nearest one after it that is not case-ignorable
  is not cased (or there is none), and U+03C3 otherwise; every other code point maps to
  one code point, or to itself.

  An entry \<open>(lo, hi, step, lo')\<close> of \<open>lower_table\<close> maps the code points \<open>lo, lo + step, ...\<close>
  up to \<open>hi\<close> to \<open>lo', lo' + step, ...\<close>. \<open>case_ignorable_table\<close> holds the ranges of the
  case-ignorable code points, \<open>cased_table\<close> those of the cased code points that are not
  case-ignorable.
\<close>

fun StringToCodePoints :: "jsstring \<Rightarrow> nat list" where
  "StringToCodePoints [] = []"
| "StringToCodePoints [u] = [unat u]"
| "StringToCodePoints (u # v # us) =
     (if 0xD800 \<le> unat u \<and> unat u \<le> 0xDBFF \<and> 0xDC00 \<le> unat v \<and> unat v \<le> 0xDFFF
      then (0x10000 + (unat u - 0xD800) * 0x400 + (unat v - 0xDC00)) # StringToCodePoints us
      else unat u # StringToCodePoints (v # us))"

fun CodePointsToString :: "nat list \<Rightarrow> jsstring" where
  "CodePointsToString [] = []"
| "CodePointsToString (c # cs) =
     (if c < 0x10000 then [of_nat c]
      else [of_nat (0xD800 + (c - 0x10000) div 0x400),
            of_nat (0xDC00 + (c - 0x10000) mod 0x400)])
     @ CodePointsToString cs"

definition lower_table :: "(nat \<times> nat \<times> nat \<times> nat) list" where
  "lower_table =
     [(0x41, 0x5A, 1, 0x61), (0xC0, 0xD6, 1, 0xE0), (0xD8, 0xDE, 1, 0xF8),
      (0x100, 0x12E, 2, 0x101), (0x132, 0x136, 2, 0x133), (0x139, 0x147, 2, 0x13A),
      (0x14A, 0x176, 2, 0x14B), (0x178, 0x178, 1, 0xFF), (0x179, 0x17D, 2, 0x17A),
      (0x181, 0x181, 1, 0x253), (0x182, 0x184, 2, 0x183), (0x186, 0x186, 1, 0x254),
      (0x187, 0x187, 1, 0x188), (0x189, 0x18A, 1, 0x256), (0x18B, 0x18B, 1, 0x18C),
      (0x18E, 0x18E, 1, 0x1DD), (0x18F, 0x18F, 1, 0x259), (0x190, 0x190, 1, 0x25B),
      (0x191, 0x191, 1, 0x192), (0x193, 0x193, 1, 0x260), (0x194, 0x194, 1, 0x263),
      (0x196, 0x196, 1, 0x269), (0x197, 0x197, 1, 0x268), (0x198, 0x198, 1, 0x199),
      (0x19C, 0x19C, 1, 0x26F), (0x19D, 0x19D, 1, 0x272), (0x19F, 0x19F, 1, 0x275),
      (0x1A0, 0x1A4, 2, 0x1A1), (0x1A6, 0x1A6, 1, 0x280), (0x1A7, 0x1A7, 1, 0x1A8),
      (0x1A9, 0x1A9, 1, 0x283), (0x1AC, 0x1AC, 1, 0x1AD), (0x1AE, 0x1AE, 1, 0x288),
      (0x1AF, 0x1AF, 1, 0x1B0), (0x1B1, 0x1B2, 1, 0x28A), (0x1B3, 0x1B5, 2, 0x1B4),
      (0x1B7, 0x1B7, 1, 0x292), (0x1B8, 0x1B8, 1, 0x1B9), (0x1BC, 0x1BC, 1, 0x1BD),
      (0x1C4, 0x1C4, 1, 0x1C6), (0x1C5, 0x1C5, 1, 0x1C6), (0x1C7, 0x1C7, 1, 0x1C9),
      (0x1C8, 0x1C8, 1, 0x1C9), (0x1CA, 0x1CA, 1, 0x1CC), (0x1CB, 0x1DB, 2, 0x1CC),
      (0x1DE, 0x1EE, 2, 0x1DF), (0x1F1, 0x1F1, 1, 0x1F3), (0x1F2, 0x1F4, 2, 0x1F3),
      (0x1F6, 0x1F6, 1, 0x195), (0x1F7, 0x1F7, 1, 0x1BF), (0x1F8, 0x21E, 2, 0x1F9),
      (0x220, 0x220, 1, 0x19E), (0x222, 0x232, 2, 0x223), (0x23A, 0x23A, 1, 0x2C65),
      (0x23B, 0x23B, 1, 0x23C), (0x23D, 0x23D, 1, 0x19A), (0x23E, 0x23E, 1, 0x2C66),
      (0x241, 0x241, 1, 0x242), (0x243, 0x243, 1, 0x180), (0x244, 0x244, 1, 0x289),
      (0x245, 0x245, 1, 0x28C), (0x246, 0x24E, 2, 0x247), (0x370, 0x372, 2, 0x371),
      (0x376, 0x376, 1, 0x377), (0x37F, 0x37F, 1, 0x3F3), (0x386, 0x386, 1, 0x3AC),
      (0x388, 0x38A, 1, 0x3AD), (0x38C, 0x38C, 1, 0x3CC), (0x38E, 0x38F, 1, 0x3CD),
      (0x391, 0x3A1, 1, 0x3B1), (0x3A4, 0x3AB, 1, 0x3C4), (0x3CF, 0x3CF, 1, 0x3D7),
      (0x3D8, 0x3EE, 2, 0x3D9), (0x3F4, 0x3F4, 1, 0x3B8), (0x3F7, 0x3F7, 1, 0x3F8),
      (0x3F9, 0x3F9, 1, 0x3F2), (0x3FA, 0x3FA, 1, 0x3FB), (0x3FD, 0x3FF, 1, 0x37B),
      (0x400, 0x40F, 1, 0x450), (0x410, 0x42F, 1, 0x430), (0x460, 0x480, 2, 0x461),
      (0x48A, 0x4BE, 2, 0x48B), (0x4C0, 0x4C0, 1, 0x4CF), (0x4C1, 0x4CD, 2, 0x4C2),
      (0x4D0, 0x52E, 2, 0x4D1), (0x531, 0x556, 1, 0x561), (0x10A0, 0x10C5, 1, 0x2D00),
      (0x10C7, 0x10C7, 1, 0x2D27), (0x10CD, 0x10CD, 1, 0x2D2D), (0x13A0, 0x13EF, 1, 0xAB70),
      (0x13F0, 0x13F5, 1, 0x13F8), (0x1C90, 0x1CBA, 1, 0x10D0), (0x1CBD, 0x1CBF, 1, 0x10FD),
      (0x1E00, 0x1E94, 2, 0x1E01), (0x1E9E, 0x1E9E, 1, 0xDF), (0x1EA0, 0x1EFE, 2, 0x1EA1),
      (0x1F08, 0x1F0F, 1, 0x1F00), (0x1F18, 0x1F1D, 1, 0x1F10), (0x1F28, 0x1F2F, 1, 0x1F20),
      (0x1F38, 0x1F3F, 1, 0x1F30), (0x1F48, 0x1F4D, 1, 0x1F40), (0x1F59, 0x1F5F, 2, 0x1F51),
      (0x1F68, 0x1F6F, 1, 0x1F60), (0x1F88, 0x1F8F, 1, 0x1F80), (0x1F98, 0x1F9F, 1, 0x1F90),
      (0x1FA8, 0x1FAF, 1, 0x1FA0), (0x1FB8, 0x1FB9, 1, 0x1FB0), (0x1FBA, 0x1FBB, 1, 0x1F70),
      (0x1FBC, 0x1FBC, 1, 0x1FB3), (0x1FC8, 0x1FCB, 1, 0x1F72), (0x1FCC, 0x1FCC, 1, 0x1FC3),
      (0x1FD8, 0x1FD9, 1, 0x1FD0), (0x1FDA, 0x1FDB, 1, 0x1F76), (0x1FE8, 0x1FE9, 1, 0x1FE0),
      (0x1FEA, 0x1FEB, 1, 0x1F7A), (0x1FEC, 0x1FEC, 1, 0x1FE5), (0x1FF8, 0x1FF9, 1, 0x1F78),
      (0x1FFA, 0x1FFB, 1, 0x1F7C), (0x1FFC, 0x1FFC, 1, 0x1FF3), (0x2126, 0x2126, 1, 0x3C9),
      (0x212A, 0x212A, 1, 0x6B), (0x212B, 0x212B, 1, 0xE5), (0x2132, 0x2132, 1, 0x214E),
      (0x2160, 0x216F, 1, 0x2170), (0x2183, 0x2183, 1, 0x2184), (0x24B6, 0x24CF, 1, 0x24D0),
      (0x2C00, 0x2C2F, 1, 0x2C30), (0x2C60, 0x2C60, 1, 0x2C61), (0x2C62, 0x2C62, 1, 0x26B),
      (0x2C63, 0x2C63, 1, 0x1D7D), (0x2C64, 0x2C64, 1, 0x27D), (0x2C67, 0x2C6B, 2, 0x2C68),
      (0x2C6D, 0x2C6D, 1, 0x251), (0x2C6E, 0x2C6E, 1, 0x271), (0x2C6F, 0x2C6F, 1, 0x250),
      (0x2C70, 0x2C70, 1, 0x252), (0x2C72, 0x2C72, 1, 0x2C73), (0x2C75, 0x2C75, 1, 0x2C76),
      (0x2C7E, 0x2C7F, 1, 0x23F), (0x2C80, 0x2CE2, 2, 0x2C81), (0x2CEB, 0x2CED, 2, 0x2CEC),
      (0x2CF2, 0x2CF2, 1, 0x2CF3), (0xA640, 0xA66C, 2, 0xA641), (0xA680, 0xA69A, 2, 0xA681),
      (0xA722, 0xA72E, 2, 0xA723), (0xA732, 0xA76E, 2, 0xA733), (0xA779, 0xA77B, 2, 0xA77A),
      (0xA77D, 0xA77D, 1, 0x1D79), (0xA77E, 0xA786, 2, 0xA77F), (0xA78B, 0xA78B, 1, 0xA78C),
      (0xA78D, 0xA78D, 1, 0x265), (0xA790, 0xA792, 2, 0xA791), (0xA796, 0xA7A8, 2, 0xA797),
      (0xA7AA, 0xA7AA, 1, 0x266), (0xA7AB, 0xA7AB, 1, 0x25C), (0xA7AC, 0xA7AC, 1, 0x261),
      (0xA7AD, 0xA7AD, 1, 0x26C), (0xA7AE, 0xA7AE, 1, 0x26A), (0xA7B0, 0xA7B0, 1, 0x29E),
      (0xA7B1, 0xA7B1, 1, 0x287), (0xA7B2, 0xA7B2, 1, 0x29D), (0xA7B3, 0xA7B3, 1, 0xAB53),
      (0xA7B4, 0xA7C2, 2, 0xA7B5), (0xA7C4, 0xA7C4, 1, 0xA794), (0xA7C5, 0xA7C5, 1, 0x282),
      (0xA7C6, 0xA7C6, 1, 0x1D8E), (0xA7C7, 0xA7C9, 2, 0xA7C8), (0xA7D0, 0xA7D0, 1, 0xA7D1),
      (0xA7D6, 0xA7D8, 2, 0xA7D7), (0xA7F5, 0xA7F5, 1, 0xA7F6), (0xFF21, 0xFF3A, 1, 0xFF41),
      (0x10400, 0x10427, 1, 0x10428), (0x104B0, 0x104D3, 1, 0x104D8),
      (0x10570, 0x1057A, 1, 0x10597), (0x1057C, 0x1058A, 1, 0x105A3),
      (0x1058C, 0x10592, 1, 0x105B3), (0x10594, 0x10595, 1, 0x105BB),
      (0x10C80, 0x10CB2, 1, 0x10CC0), (0x118A0, 0x118BF, 1, 0x118C0),
      (0x16E40, 0x16E5F, 1, 0x16E60), (0x1E900, 0x1E921, 1, 0x1E922)]"

definition case_ignorable_table :: "(nat \<times> nat) list" where
  "case_ignorable_table =
     [(0x27, 0x27), (0x2E, 0x2E), (0x3A, 0x3A), (0x5E, 0x5E), (0x60, 0x60), (0xA8, 0xA8),
      (0xAD, 0xAD), (0xAF, 0xAF), (0xB4, 0xB4), (0xB7, 0xB8), (0x2B0, 0x36F),
      (0x374, 0x375), (0x37A, 0x37A), (0x384, 0x385), (0x387, 0x387), (0x483, 0x489),
      (0x559, 0x559), (0x55F, 0x55F), (0x591, 0x5BD), (0x5BF, 0x5BF), (0x5C1, 0x5C2),
      (0x5C4, 0x5C5), (0x5C7, 0x5C7), (0x5F4, 0x5F4), (0x600, 0x605), (0x610, 0x61A),
      (0x61C, 0x61C), (0x640, 0x640), (0x64B, 0x65F), (0x670, 0x670), (0x6D6, 0x6DD),
      (0x6DF, 0x6E8), (0x6EA, 0x6ED), (0x70F, 0x70F), (0x711, 0x711), (0x730, 0x74A),
      (0x7A6, 0x7B0), (0x7EB, 0x7F5), (0x7FA, 0x7FA), (0x7FD, 0x7FD), (0x816, 0x82D),
      (0x859, 0x85B), (0x888, 0x888), (0x890, 0x891), (0x898, 0x89F), (0x8C9, 0x902),
      (0x93A, 0x93A), (0x93C, 0x93C), (0x941, 0x948), (0x94D, 0x94D), (0x951, 0x957),
      (0x962, 0x963), (0x971, 0x971), (0x981, 0x981), (0x9BC, 0x9BC), (0x9C1, 0x9C4),
      (0x9CD, 0x9CD), (0x9E2, 0x9E3), (0x9FE, 0x9FE), (0xA01, 0xA02), (0xA3C, 0xA3C),
      (0xA41, 0xA42), (0xA47, 0xA48), (0xA4B, 0xA4D), (0xA51, 0xA51), (0xA70, 0xA71),
      (0xA75, 0xA75), (0xA81, 0xA82), (0xABC, 0xABC), (0xAC1, 0xAC5), (0xAC7, 0xAC8),
      (0xACD, 0xACD), (0xAE2, 0xAE3), (0xAFA, 0xAFF), (0xB01, 0xB01), (0xB3C, 0xB3C),
      (0xB3F, 0xB3F), (0xB41, 0xB44), (0xB4D, 0xB4D), (0xB55, 0xB56), (0xB62, 0xB63),
      (0xB82, 0xB82), (0xBC0, 0xBC0), (0xBCD, 0xBCD), (0xC00, 0xC00), (0xC04, 0xC04),
      (0xC3C, 0xC3C), (0xC3E, 0xC40), (0xC46, 0xC48), (0xC4A, 0xC4D), (0xC55, 0xC56),
      (0xC62, 0xC63), (0xC81, 0xC81), (0xCBC, 0xCBC), (0xCBF, 0xCBF), (0xCC6, 0xCC6),
      (0xCCC, 0xCCD), (0xCE2, 0xCE3), (0xD00, 0xD01), (0xD3B, 0xD3C), (0xD41, 0xD44),
      (0xD4D, 0xD4D), (0xD62, 0xD63), (0xD81, 0xD81), (0xDCA, 0xDCA), (0xDD2, 0xDD4),
      (0xDD6, 0xDD6), (0xE31, 0xE31), (0xE34, 0xE3A), (0xE46, 0xE4E), (0xEB1, 0xEB1),
      (0xEB4, 0xEBC), (0xEC6, 0xEC6), (0xEC8, 0xECD), (0xF18, 0xF19), (0xF35, 0xF35),
      (0xF37, 0xF37), (0xF39, 0xF39), (0xF71, 0xF7E), (0xF80, 0xF84), (0xF86, 0xF87),
      (0xF8D, 0xF97), (0xF99, 0xFBC), (0xFC6, 0xFC6), (0x102D, 0x1030), (0x1032, 0x1037),
      (0x1039, 0x103A), (0x103D, 0x103E), (0x1058, 0x1059), (0x105E, 0x1060),
      (0x1071, 0x1074), (0x1082, 0x1082), (0x1085, 0x1086), (0x108D, 0x108D),
      (0x109D, 0x109D), (0x10FC, 0x10FC), (0x135D, 0x135F), (0x1712, 0x1714),
      (0x1732, 0x1733), (0x1752, 0x1753), (0x1772, 0x1773), (0x17B4, 0x17B5),
      (0x17B7, 0x17BD), (0x17C6, 0x17C6), (0x17C9, 0x17D3), (0x17D7, 0x17D7),
      (0x17DD, 0x17DD), (0x180B, 0x180F), (0x1843, 0x1843), (0x1885, 0x1886),
      (0x18A9, 0x18A9), (0x1920, 0x1922), (0x1927, 0x1928), (0x1932, 0x1932),
      (0x1939, 0x193B), (0x1A17, 0x1A18), (0x1A1B, 0x1A1B), (0x1A56, 0x1A56),
      (0x1A58, 0x1A5E), (0x1A60, 0x1A60), (0x1A62, 0x1A62), (0x1A65, 0x1A6C),
      (0x1A73, 0x1A7C), (0x1A7F, 0x1A7F), (0x1AA7, 0x1AA7), (0x1AB0, 0x1ACE),
      (0x1B00, 0x1B03), (0x1B34, 0x1B34), (0x1B36, 0x1B3A), (0x1B3C, 0x1B3C),
      (0x1B42, 0x1B42), (0x1B6B, 0x1B73), (0x1B80, 0x1B81), (0x1BA2, 0x1BA5),
      (0x1BA8, 0x1BA9), (0x1BAB, 0x1BAD), (0x1BE6, 0x1BE6), (0x1BE8, 0x1BE9),
      (0x1BED, 0x1BED), (0x1BEF, 0x1BF1), (0x1C2C, 0x1C33), (0x1C36, 0x1C37),
      (0x1C78, 0x1C7D), (0x1CD0, 0x1CD2), (0x1CD4, 0x1CE0), (0x1CE2, 0x1CE8),
      (0x1CED, 0x1CED), (0x1CF4, 0x1CF4), (0x1CF8, 0x1CF9), (0x1D2C, 0x1D6A),
      (0x1D78, 0x1D78), (0x1D9B, 0x1DFF), (0x1FBD, 0x1FBD), (0x1FBF, 0x1FC1),
      (0x1FCD, 0x1FCF), (0x1FDD, 0x1FDF), (0x1FED, 0x1FEF), (0x1FFD, 0x1FFE),
      (0x200B, 0x200F), (0x2018, 0x2019), (0x2024, 0x2024), (0x2027, 0x2027),
      (0x202A, 0x202E), (0x2060, 0x2064), (0x2066, 0x206F), (0x2071, 0x2071),
      (0x207F, 0x207F), (0x2090, 0x209C), (0x20D0, 0x20F0), (0x2C7C, 0x2C7D),
      (0x2CEF, 0x2CF1), (0x2D6F, 0x2D6F), (0x2D7F, 0x2D7F), (0x2DE0, 0x2DFF),
      (0x2E2F, 0x2E2F), (0x3005, 0x3005), (0x302A, 0x302D), (0x3031, 0x3035),
      (0x303B, 0x303B), (0x3099, 0x309E), (0x30FC, 0x30FE), (0xA015, 0xA015),
      (0xA4F8, 0xA4FD), (0xA60C, 0xA60C), (0xA66F, 0xA672), (0xA674, 0xA67D),
      (0xA67F, 0xA67F), (0xA69C, 0xA69F), (0xA6F0, 0xA6F1), (0xA700, 0xA721),
      (0xA770, 0xA770), (0xA788, 0xA78A), (0xA7F2, 0xA7F4), (0xA7F8, 0xA7F9),
      (0xA802, 0xA802), (0xA806, 0xA806), (0xA80B, 0xA80B), (0xA825, 0xA826),
      (0xA82C, 0xA82C), (0xA8C4, 0xA8C5), (0xA8E0, 0xA8F1), (0xA8FF, 0xA8FF),
      (0xA926, 0xA92D), (0xA947, 0xA951), (0xA980, 0xA982), (0xA9B3, 0xA9B3),
      (0xA9B6, 0xA9B9), (0xA9BC, 0xA9BD), (0xA9CF, 0xA9CF), (0xA9E5, 0xA9E6),
      (0xAA29, 0xAA2E), (0xAA31, 0xAA32), (0xAA35, 0xAA36), (0xAA43, 0xAA43),
      (0xAA4C, 0xAA4C), (0xAA70, 0xAA70), (0xAA7C, 0xAA7C), (0xAAB0, 0xAAB0),
      (0xAAB2, 0xAAB4), (0xAAB7, 0xAAB8), (0xAABE, 0xAABF), (0xAAC1, 0xAAC1),
      (0xAADD, 0xAADD), (0xAAEC, 0xAAED), (0xAAF3, 0xAAF4), (0xAAF6, 0xAAF6),
      (0xAB5B, 0xAB5F), (0xAB69, 0xAB6B), (0xABE5, 0xABE5), (0xABE8, 0xABE8),
      (0xABED, 0xABED), (0xFB1E, 0xFB1E), (0xFBB2, 0xFBC2), (0xFE00, 0xFE0F),
      (0xFE13, 0xFE13), (0xFE20, 0xFE2F), (0xFE52, 0xFE52), (0xFE55, 0xFE55),
      (0xFEFF, 0xFEFF), (0xFF07, 0xFF07), (0xFF0E, 0xFF0E), (0xFF1A, 0xFF1A),
      (0xFF3E, 0xFF3E), (0xFF40, 0xFF40), (0xFF70, 0xFF70), (0xFF9E, 0xFF9F),
      (0xFFE3, 0xFFE3), (0xFFF9, 0xFFFB), (0x101FD, 0x101FD), (0x102E0, 0x102E0),
      (0x10376, 0x1037A), (0x10780, 0x10785), (0x10787, 0x107B0), (0x107B2, 0x107BA),
      (0x10A01, 0x10A03), (0x10A05, 0x10A06), (0x10A0C, 0x10A0F), (0x10A38, 0x10A3A),
      (0x10A3F, 0x10A3F), (0x10AE5, 0x10AE6), (0x10D24, 0x10D27), (0x10EAB, 0x10EAC),
      (0x10F46, 0x10F50), (0x10F82, 0x10F85), (0x11001, 0x11001), (0x11038, 0x11046),
      (0x11070, 0x11070), (0x11073, 0x11074), (0x1107F, 0x11081), (0x110B3, 0x110B6),
      (0x110B9, 0x110BA), (0x110BD, 0x110BD), (0x110C2, 0x110C2), (0x110CD, 0x110CD),
      (0x11100, 0x11102), (0x11127, 0x1112B), (0x1112D, 0x11134), (0x11173, 0x11173),
      (0x11180, 0x11181), (0x111B6, 0x111BE), (0x111C9, 0x111CC), (0x111CF, 0x111CF),
      (0x1122F, 0x11231), (0x11234, 0x11234), (0x11236, 0x11237), (0x1123E, 0x1123E),
      (0x112DF, 0x112DF), (0x112E3, 0x112EA), (0x11300, 0x11301), (0x1133B, 0x1133C),
      (0x11340, 0x11340), (0x11366, 0x1136C), (0x11370, 0x11374), (0x11438, 0x1143F),
      (0x11442, 0x11444), (0x11446, 0x11446), (0x1145E, 0x1145E), (0x114B3, 0x114B8),
      (0x114BA, 0x114BA), (0x114BF, 0x114C0), (0x114C2, 0x114C3), (0x115B2, 0x115B5),
      (0x115BC, 0x115BD), (0x115BF, 0x115C0), (0x115DC, 0x115DD), (0x11633, 0x1163A),
      (0x1163D, 0x1163D), (0x1163F, 0x11640), (0x116AB, 0x116AB), (0x116AD, 0x116AD),
      (0x116B0, 0x116B5), (0x116B7, 0x116B7), (0x1171D, 0x1171F), (0x11722, 0x11725),
      (0x11727, 0x1172B), (0x1182F, 0x11837), (0x11839, 0x1183A), (0x1193B, 0x1193C),
      (0x1193E, 0x1193E), (0x11943, 0x11943), (0x119D4, 0x119D7), (0x119DA, 0x119DB),
      (0x119E0, 0x119E0), (0x11A01, 0x11A0A), (0x11A33, 0x11A38), (0x11A3B, 0x11A3E),
      (0x11A47, 0x11A47), (0x11A51, 0x11A56), (0x11A59, 0x11A5B), (0x11A8A, 0x11A96),
      (0x11A98, 0x11A99), (0x11C30, 0x11C36), (0x11C38, 0x11C3D), (0x11C3F, 0x11C3F),
      (0x11C92, 0x11CA7), (0x11CAA, 0x11CB0), (0x11CB2, 0x11CB3), (0x11CB5, 0x11CB6),
      (0x11D31, 0x11D36), (0x11D3A, 0x11D3A), (0x11D3C, 0x11D3D), (0x11D3F, 0x11D45),
      (0x11D47, 0x11D47), (0x11D90, 0x11D91), (0x11D95, 0x11D95), (0x11D97, 0x11D97),
      (0x11EF3, 0x11EF4), (0x13430, 0x13438), (0x16AF0, 0x16AF4), (0x16B30, 0x16B36),
      (0x16B40, 0x16B43), (0x16F4F, 0x16F4F), (0x16F8F, 0x16F9F), (0x16FE0, 0x16FE1),
      (0x16FE3, 0x16FE4), (0x1AFF0, 0x1AFF3), (0x1AFF5, 0x1AFFB), (0x1AFFD, 0x1AFFE),
      (0x1BC9D, 0x1BC9E), (0x1BCA0, 0x1BCA3), (0x1CF00, 0x1CF2D), (0x1CF30, 0x1CF46),
      (0x1D167, 0x1D169), (0x1D173, 0x1D182), (0x1D185, 0x1D18B), (0x1D1AA, 0x1D1AD),
      (0x1D242, 0x1D244), (0x1DA00, 0x1DA36), (0x1DA3B, 0x1DA6C), (0x1DA75, 0x1DA75),
      (0x1DA84, 0x1DA84), (0x1DA9B, 0x1DA9F), (0x1DAA1, 0x1DAAF), (0x1E000, 0x1E006),
      (0x1E008, 0x1E018), (0x1E01B, 0x1E021), (0x1E023, 0x1E024), (0x1E026, 0x1E02A),
      (0x1E130, 0x1E13D), (0x1E2AE, 0x1E2AE), (0x1E2EC, 0x1E2EF), (0x1E8D0, 0x1E8D6),
      (0x1E944, 0x1E94B), (0x1F3FB, 0x1F3FF), (0xE0001, 0xE0001), (0xE0020, 0xE007F),
      (0xE0100, 0xE01EF)]"

definition cased_table :: "(nat \<times> nat) list" where
  "cased_table =
     [(0x41, 0x5A), (0x61, 0x7A), (0xAA, 0xAA), (0xB5, 0xB5), (0xBA, 0xBA), (0xC0, 0xD6),
      (0xD8, 0xF6), (0xF8, 0x1BA), (0x1BC, 0x1BF), (0x1C4, 0x293), (0x295, 0x2AF),
      (0x370, 0x373), (0x376, 0x377), (0x37B, 0x37D), (0x37F, 0x37F), (0x386, 0x386),
      (0x388, 0x38A), (0x38C, 0x38C), (0x38E, 0x3A1), (0x3A3, 0x3F5), (0x3F7, 0x481),
      (0x48A, 0x52F), (0x531, 0x556), (0x560, 0x588), (0x10A0, 0x10C5), (0x10C7, 0x10C7),
      (0x10CD, 0x10CD), (0x10D0, 0x10FA), (0x10FD, 0x10FF), (0x13A0, 0x13F5),
      (0x13F8, 0x13FD), (0x1C80, 0x1C88), (0x1C90, 0x1CBA), (0x1CBD, 0x1CBF),
      (0x1D00, 0x1D2B), (0x1D6B, 0x1D77), (0x1D79, 0x1D9A), (0x1E00, 0x1F15),
      (0x1F18, 0x1F1D), (0x1F20, 0x1F45), (0x1F48, 0x1F4D), (0x1F50, 0x1F57),
      (0x1F59, 0x1F59), (0x1F5B, 0x1F5B), (0x1F5D, 0x1F5D), (0x1F5F, 0x1F7D),
      (0x1F80, 0x1FB4), (0x1FB6, 0x1FBC), (0x1FBE, 0x1FBE), (0x1FC2, 0x1FC4),
      (0x1FC6, 0x1FCC), (0x1FD0, 0x1FD3), (0x1FD6, 0x1FDB), (0x1FE0, 0x1FEC),
      (0x1FF2, 0x1FF4), (0x1FF6, 0x1FFC), (0x2102, 0x2102), (0x2107, 0x2107),
      (0x210A, 0x2113), (0x2115, 0x2115), (0x2119, 0x211D), (0x2124, 0x2124),
      (0x2126, 0x2126), (0x2128, 0x2128), (0x212A, 0x212D), (0x212F, 0x2134),
      (0x2139, 0x2139), (0x213C, 0x213F), (0x2145, 0x2149), (0x214E, 0x214E),
      (0x2160, 0x217F), (0x2183, 0x2184), (0x24B6, 0x24E9), (0x2C00, 0x2C7B),
      (0x2C7E, 0x2CE4), (0x2CEB, 0x2CEE), (0x2CF2, 0x2CF3), (0x2D00, 0x2D25),
      (0x2D27, 0x2D27), (0x2D2D, 0x2D2D), (0xA640, 0xA66D), (0xA680, 0xA69B),
      (0xA722, 0xA76F), (0xA771, 0xA787), (0xA78B, 0xA78E), (0xA790, 0xA7CA),
      (0xA7D0, 0xA7D1), (0xA7D3, 0xA7D3), (0xA7D5, 0xA7D9), (0xA7F5, 0xA7F6),
      (0xA7FA, 0xA7FA), (0xAB30, 0xAB5A), (0xAB60, 0xAB68), (0xAB70, 0xABBF),
      (0xFB00, 0xFB06), (0xFB13, 0xFB17), (0xFF21, 0xFF3A), (0xFF41, 0xFF5A),
      (0x10400, 0x1044F), (0x104B0, 0x104D3), (0x104D8, 0x104FB), (0x10570, 0x1057A),
      (0x1057C, 0x1058A), (0x1058C, 0x10592), (0x10594, 0x10595), (0x10597, 0x105A1),
      (0x105A3, 0x105B1), (0x105B3, 0x105B9), (0x105BB, 0x105BC), (0x10C80, 0x10CB2),
      (0x10CC0, 0x10CF2), (0x118A0, 0x118DF), (0x16E40, 0x16E7F), (0x1D400, 0x1D454),
      (0x1D456, 0x1D49C), (0x1D49E, 0x1D49F), (0x1D4A2, 0x1D4A2), (0x1D4A5, 0x1D4A6),
      (0x1D4A9, 0x1D4AC), (0x1D4AE, 0x1D4B9), (0x1D4BB, 0x1D4BB), (0x1D4BD, 0x1D4C3),
      (0x1D4C5, 0x1D505), (0x1D507, 0x1D50A), (0x1D50D, 0x1D514), (0x1D516, 0x1D51C),
      (0x1D51E, 0x1D539), (0x1D53B, 0x1D53E), (0x1D540, 0x1D544), (0x1D546, 0x1D546),
      (0x1D54A, 0x1D550), (0x1D552, 0x1D6A5), (0x1D6A8, 0x1D6C0), (0x1D6C2, 0x1D6DA),
      (0x1D6DC, 0x1D6FA), (0x1D6FC, 0x1D714), (0x1D716, 0x1D734), (0x1D736, 0x1D74E),
      (0x1D750, 0x1D76E), (0x1D770, 0x1D788), (0x1D78A, 0x1D7A8), (0x1D7AA, 0x1D7C2),
      (0x1D7C4, 0x1D7CB), (0x1DF00, 0x1DF09), (0x1DF0B, 0x1DF1E), (0x1E900, 0x1E943),
      (0x1F130, 0x1F149), (0x1F150, 0x1F169), (0x1F170, 0x1F189)]"

fun lookup_lower :: "(nat \<times> nat \<times> nat \<times> nat) list \<Rightarrow> nat \<Rightarrow> nat option" where
  "lookup_lower [] c = None"
| "lookup_lower ((lo, hi, step, lo') # t) c =
     (if lo \<le> c \<and> c \<le> hi \<and> (c - lo) mod step = 0 then Some (lo' + (c - lo))
      else lookup_lower t c)"

fun in_ranges :: "(nat \<times> nat) list \<Rightarrow> nat \<Rightarrow> bool" where
  "in_ranges [] c = False"
| "in_ranges ((lo, hi) # t) c = (lo \<le> c \<and> c \<le> hi \<or> in_ranges t c)"

text \<open>The first code point of \<open>cs\<close> that is not case-ignorable is a cased letter.\<close>

fun cased_follows :: "nat list \<Rightarrow> bool" where
  "cased_follows [] = False"
| "cased_follows (c # cs) =
     (if in_ranges case_ignorable_table c then cased_follows cs
      else in_ranges cased_table c)"

text \<open>
  The lower-case form of the code point \<open>c\<close> that stands after the code points \<open>before\<close>
  (nearest first) and before the code points \<open>after\<close>.
\<close>

definition lower_cp :: "nat list \<Rightarrow> nat \<Rightarrow> nat list \<Rightarrow> nat list" where
  "lower_cp before c after =
     (if c = 0x3A3
      then [if cased_follows before \<and> \<not> cased_follows after then 0x3C2 else 0x3C3]
      else if c = 0x130 then [0x69, 0x307]
      else case lookup_lower lower_table c of
             Some l \<Rightarrow> [l]
           | None \<Rightarrow> [c])"

fun lower_cps :: "nat list \<Rightarrow> nat list \<Rightarrow> nat list" where
  "lower_cps before [] = []"
| "lower_cps before (c # after) = lower_cp before c after @ lower_cps (c # before) after"

definition toLowerCase :: "jsstring \<Rightarrow> jsstring" where
  "toLowerCase s = CodePointsToString (lower_cps [] (StringToCodePoints s))"

text \<open>
  \<open>n.toString()\<close> of a non-negative integer: its decimal digits.
\<close>

function toString :: "nat \<Rightarrow> jsstring" where
  "toString n =
     (if n < 10 then [0x30 + of_nat n]
      else toString (n div 10) @ [0x30 + of_nat (n mod 10)])"
  by pat_completeness auto
termination
  by (relation "measure (\<lambda>n. n)") auto

text \<open>
  \<open>new Uint8Array(n)\<close> is zero-filled; \<open>target.set(src, off)\<close> copies \<open>src\<close> into the target
  at \<open>off\<close> and throws a RangeError (with the message of V8) when it does not fit.
\<close>

definition Uint8Array :: "nat \<Rightarrow> buffer" where
  "Uint8Array n = replicate n 0"

definition Uint8Array_set :: "buffer \<Rightarrow> buffer \<Rightarrow> nat \<Rightarrow> js_error + buffer" where
  "Uint8Array_set target src off =
     (if length target < off + length src then Inl (RangeError (js ''offset is out of bounds''))
      else Inr (take off target @ src @ drop (off + length src) target))"

section \<open>Requests and responses\<close>

text \<open>
  An uploaded \<open>File\<close>: its name, its declared media type and its bytes; \<open>size\<close> is the
  number of bytes.
\<close>

record File =
  name :: jsstring
  ftype :: jsstring
  bytes :: buffer

definition fsize :: "File \<Rightarrow> nat" where
  "fsize f = length (bytes f)"

text \<open>
  A \<open>FormData\<close> entry is a string or a file; \<open>formData.get(k)\<close> is the first entry named
  \<open>k\<close>, or \<open>null\<close>. \<open>request.formData()\<close> may reject, with an error message.
\<close>

datatype form_entry = StringEntry jsstring | FileEntry File

type_synonym form = "(jsstring \<times> form_entry) list"

definition form_get :: "form \<Rightarrow> jsstring \<Rightarrow> form_entry option" where
  "form_get fd k = map_of fd k"

record request =
  "method" :: jsstring
  pathname :: jsstring
  content_type :: "jsstring option"
  formData :: "jsstring + form"

text \<open>
  A response body is absent, a text, one of the two static HTML pages (the template
  literals of \<open>getApiDocs\<close> and \<open>getHTMLInterface\<close>), a byte buffer, or the
  \<open>JSON.stringify\<close> of a value. \<open>headers\<close> are the headers the code passes to
  \<open>new Response\<close>, in its order; the status is 200 when the code names none.
  \<open>new Response\<close> is taken to accept every header value the code passes: a file name
  read from a multipart form holds no line break, and the Workers runtime encodes units
  beyond Latin-1 as UTF-8.
\<close>

datatype json =
  JString jsstring
  | JBool bool
  | JArray "json list"
  | JObject "(jsstring \<times> json) list"

datatype page = ApiDocs | HTMLInterface

datatype body =
  NoBody
  | TextBody jsstring
  | HtmlBody page
  | BinaryBody buffer
  | JsonBody json

record response =
  status :: nat
  headers :: "(jsstring \<times> jsstring) list"
  body :: body

definition header :: "response \<Rightarrow> jsstring \<Rightarrow> jsstring option" where
  "header r k = map_of (headers r) k"

text \<open>The field \<open>k\<close> of a JSON object body.\<close>

fun json_field :: "body \<Rightarrow> jsstring \<Rightarrow> json option" where
  "json_field (JsonBody (JObject kvs)) k = map_of kvs k"
| "json_field _ k = None"

section \<open>worker.js: the placeholder worker\<close>

text \<open>
  Every handler takes \<open>now\<close>, the value of \<open>new Date().toISOString()\<close>, and returns the
  response together with the list of files \<open>convertVideoToMp3\<close> was called with.
\<close>

definition simpleVideoToMp3Conversion :: "buffer \<Rightarrow> js_error + buffer" where
  "simpleVideoToMp3Conversion videoBuffer =
     (let mp3Header = [0xFF, 0xFB, 0x90, 0x00,
                       0x00, 0x00, 0x00, 0x00,
                       0x00, 0x00, 0x00, 0x00,
                       0x00, 0x00, 0x00, 0x00];
          audioData = Uint8Array 1024;
          result = Uint8Array (length mp3Header + length audioData)
      in case Uint8Array_set result mp3Header 0 of
           Inl e \<Rightarrow> Inl e
         | Inr result1 \<Rightarrow> Uint8Array_set result1 audioData (length mp3Header))"

text \<open>The \<open>catch\<close> of \<open>convertVideoToMp3\<close> turns every error into \<open>null\<close>.\<close>

definition convertVideoToMp3 :: "File \<Rightarrow> buffer option" where
  "convertVideoToMp3 videoFile =
     (case simpleVideoToMp3Conversion (bytes videoFile) of
        Inl e \<Rightarrow> None
      | Inr mp3Data \<Rightarrow> Some mp3Data)"

definition videoExtensions :: "jsstring list" where
  "videoExtensions =
     [js ''.mp4'', js ''.avi'', js ''.mov'', js ''.mkv'', js ''.webm'', js ''.flv'', js ''.wmv'']"

definition isVideoFile :: "jsstring \<Rightarrow> bool" where
  "isVideoFile filename =
     (let ext = substring (toLowerCase filename) (lastIndexOf filename 0x2E)
      in array_includes videoExtensions ext)"

text \<open>
  \<open>s.replace(/\.[^/.]+$/, '')\<close>: the leftmost position where a dot is followed, up to the
  end of the string, by one or more units that are neither \<open>/\<close> nor a dot is cut off; a
  string with no such position is returned as it is.
\<close>

fun replace_ext :: "jsstring \<Rightarrow> jsstring" where
  "replace_ext [] = []"
| "replace_ext (c # cs) =
     (if c = 0x2E \<and> cs \<noteq> [] \<and> list_all (\<lambda>x. x \<noteq> 0x2F \<and> x \<noteq> 0x2E) cs then []
      else c # replace_ext cs)"

definition createErrorResponse :: "jsstring \<Rightarrow> jsstring \<Rightarrow> nat \<Rightarrow> response" where
  "createErrorResponse now message st =
     \<lparr>status = st,
      headers = [(js ''Content-Type'', js ''application/json''),
                 (js ''Access-Control-Allow-Origin'', js ''*'')],
      body = JsonBody (JObject [(js ''error'', JBool True),
                                (js ''message'', JString message),
                                (js ''timestamp'', JString now)])\<rparr>"

definition allowedTypes :: "jsstring list" where
  "allowedTypes =
     [js ''video/mp4'', js ''video/avi'', js ''video/mov'', js ''video/mkv'', js ''video/webm'']"

definition maxSize :: nat where
  "maxSize = 50 * 1024 * 1024"

definition handleConversion :: "jsstring \<Rightarrow> request \<Rightarrow> response \<times> File list" where
  "handleConversion now request =
     (case content_type request of
        None \<Rightarrow> (createErrorResponse now (js ''Content-Type must be multipart/form-data'') 400, [])
      | Some contentType \<Rightarrow>
          if contentType = [] \<or> \<not> str_includes contentType (js ''multipart/form-data'')
          then (createErrorResponse now (js ''Content-Type must be multipart/form-data'') 400, [])
          else
            (case formData request of
               Inl e \<Rightarrow> (createErrorResponse now (js ''Internal server error'') 500, [])
             | Inr fd \<Rightarrow>
                 (case form_get fd (js ''video'') of
                    None \<Rightarrow> (createErrorResponse now (js ''No video file provided'') 400, [])
                  | Some (StringEntry s) \<Rightarrow>
                      (createErrorResponse now (js ''No video file provided'') 400, [])
                  | Some (FileEntry videoFile) \<Rightarrow>
                      if \<not> array_includes allowedTypes (ftype videoFile) \<and> \<not> isVideoFile (name videoFile)
                      then (createErrorResponse now (js ''Invalid video file type'') 400, [])
                      else if maxSize < fsize videoFile
                      then (createErrorResponse now (js ''File too large. Maximum size is 50MB'') 400, [])
                      else
                        (case convertVideoToMp3 videoFile of
                           None \<Rightarrow> (createErrorResponse now (js ''Conversion failed'') 500, [videoFile])
                         | Some mp3Buffer \<Rightarrow>
                             (let originalName = replace_ext (name videoFile);
                                  mp3Filename = originalName @ js ''.mp3''
                              in (\<lparr>status = 200,
                                   headers =
                                     [(js ''Content-Type'', js ''audio/mpeg''),
                                      (js ''Content-Disposition'',
                                       js ''attachment; filename=\"'' @ mp3Filename @ js ''\"''),
                                      (js ''Access-Control-Allow-Origin'', js ''*''),
                                      (js ''Content-Length'', toString (length mp3Buffer))],
                                   body = BinaryBody mp3Buffer\<rparr>,
                                  [videoFile]))))))"

definition handleStatus :: "jsstring \<Rightarrow> response" where
  "handleStatus now =
     \<lparr>status = 200,
      headers = [(js ''Content-Type'', js ''application/json''),
                 (js ''Access-Control-Allow-Origin'', js ''*'')],
      body = JsonBody (JObject
        [(js ''status'', JString (js ''operational'')),
         (js ''service'', JString (js ''Video to MP3 Converter'')),
         (js ''version'', JString (js ''1.0.0'')),
         (js ''timestamp'', JString now),
         (js ''limits'', JObject
            [(js ''maxFileSize'', JString (js ''50MB'')),
             (js ''supportedFormats'',
              JArray [JString (js ''mp4''), JString (js ''avi''), JString (js ''mov''),
                      JString (js ''mkv''), JString (js ''webm'')])])])\<rparr>"

definition fetch :: "jsstring \<Rightarrow> request \<Rightarrow> response \<times> File list" where
  "fetch now request =
     (if method request = js ''OPTIONS''
      then (\<lparr>status = 200,
             headers = [(js ''Access-Control-Allow-Origin'', js ''*''),
                        (js ''Access-Control-Allow-Methods'', js ''GET, POST, OPTIONS''),
                        (js ''Access-Control-Allow-Headers'', js ''Content-Type, Authorization''),
                        (js ''Access-Control-Max-Age'', js ''86400'')],
             body = NoBody\<rparr>, [])
      else if pathname request = js ''/api/convert'' \<and> method request = js ''POST''
      then handleConversion now request
      else if pathname request = js ''/api/status'' \<and> method request = js ''GET''
      then (handleStatus now, [])
      else if pathname request = js ''/'' \<and> method request = js ''GET''
      then (\<lparr>status = 200,
             headers = [(js ''Content-Type'', js ''text/html'')],
             body = HtmlBody ApiDocs\<rparr>, [])
      else (\<lparr>status = 404, headers = [], body = TextBody (js ''Not Found'')\<rparr>, []))"

section \<open>The second worker (event listener)\<close>

text \<open>
  Its adapter \<open>convertVideoToMP3\<close> waits and then throws; the inner \<open>catch\<close> wraps the
  message and throws again. The simulated delay is not modelled.
\<close>

definition convertVideoToMP3 :: "File \<Rightarrow> js_error + buffer" where
  "convertVideoToMP3 videoFile =
     (case (Inl (Error (js ''Video conversion requires FFmpeg or external service integration''))
              :: js_error + buffer) of
        Inl error \<Rightarrow> Inl (Error (js ''Conversion failed: '' @ error_message error))
      | Inr mp3 \<Rightarrow> Inr mp3)"

definition createResponse :: "(jsstring \<times> json) list \<Rightarrow> nat \<Rightarrow> response" where
  "createResponse data st =
     \<lparr>status = st,
      headers = [(js ''Content-Type'', js ''application/json''),
                 (js ''Access-Control-Allow-Origin'', js ''*''),
                 (js ''Access-Control-Allow-Methods'', js ''POST, GET, OPTIONS''),
                 (js ''Access-Control-Allow-Headers'', js ''Content-Type'')],
      body = JsonBody (JObject data)\<rparr>"

definition allowedTypes' :: "jsstring list" where
  "allowedTypes' =
     [js ''video/mp4'', js ''video/avi'', js ''video/mov'', js ''video/wmv'', js ''video/flv'',
      js ''video/webm'']"

definition invalid_type_response :: response where
  "invalid_type_response =
     createResponse
       [(js ''error'',
         JString (js ''Invalid file type. Supported formats: MP4, AVI, MOV, WMV, FLV, WEBM''))]
       400"

text \<open>
  The response \<open>handleVideoConversion\<close> builds from the converted buffer, in its success
  branch: it passes no Content-Length.
\<close>

definition mp3_response :: "File \<Rightarrow> buffer \<Rightarrow> response" where
  "mp3_response videoFile mp3Buffer =
     \<lparr>status = 200,
      headers =
        [(js ''Content-Type'', js ''audio/mpeg''),
         (js ''Content-Disposition'',
          js ''attachment; filename=\"'' @ replace_ext (name videoFile) @ js ''.mp3\"''),
         (js ''Access-Control-Allow-Origin'', js ''*''),
         (js ''Access-Control-Allow-Methods'', js ''POST, GET, OPTIONS''),
         (js ''Access-Control-Allow-Headers'', js ''Content-Type'')],
      body = BinaryBody mp3Buffer\<rparr>"

text \<open>
  A non-empty string entry passes \<open>!videoFile\<close>; its \<open>type\<close> is \<open>undefined\<close>, which the
  allow-list does not include.
\<close>

definition handleVideoConversion :: "request \<Rightarrow> response \<times> File list" where
  "handleVideoConversion request =
     (case formData request of
        Inl m \<Rightarrow>
          (createResponse [(js ''error'', JString (js ''Conversion failed: '' @ m))] 500, [])
      | Inr fd \<Rightarrow>
          (case form_get fd (js ''video'') of
             None \<Rightarrow>
               (createResponse [(js ''error'', JString (js ''No video file provided''))] 400, [])
           | Some (StringEntry s) \<Rightarrow>
               if s = []
               then (createResponse [(js ''error'', JString (js ''No video file provided''))] 400, [])
               else (invalid_type_response, [])
           | Some (FileEntry videoFile) \<Rightarrow>
               if \<not> array_includes allowedTypes' (ftype videoFile)
               then (invalid_type_response, [])
               else if maxSize < fsize videoFile
               then (createResponse
                       [(js ''error'', JString (js ''File size exceeds 50MB limit''))] 400, [])
               else
                 (case convertVideoToMP3 videoFile of
                    Inl error \<Rightarrow>
                      (createResponse
                         [(js ''error'', JString (js ''Conversion failed: '' @ error_message error))] 500,
                       [videoFile])
                  | Inr mp3Buffer \<Rightarrow> (mp3_response videoFile mp3Buffer, [videoFile]))))"

definition handleStatusCheck :: "jsstring \<Rightarrow> response" where
  "handleStatusCheck now =
     createResponse
       [(js ''status'', JString (js ''online'')),
        (js ''timestamp'', JString now),
        (js ''supported_formats'',
         JArray [JString (js ''mp4''), JString (js ''avi''), JString (js ''mov''),
                 JString (js ''wmv''), JString (js ''flv''), JString (js ''webm'')]),
        (js ''max_file_size'', JString (js ''50MB''))]
       200"

definition handleCORS :: response where
  "handleCORS =
     \<lparr>status = 200,
      headers = [(js ''Access-Control-Allow-Origin'', js ''*''),
                 (js ''Access-Control-Allow-Methods'', js ''POST, GET, OPTIONS''),
                 (js ''Access-Control-Allow-Headers'', js ''Content-Type'')],
      body = NoBody\<rparr>"

definition handleRequest :: "jsstring \<Rightarrow> request \<Rightarrow> response \<times> File list" where
  "handleRequest now request =
     (if method request = js ''OPTIONS'' then (handleCORS, [])
      else if pathname request = js ''/api/convert'' \<and> method request = js ''POST''
      then handleVideoConversion request
      else if pathname request = js ''/api/status'' \<and> method request = js ''GET''
      then (handleStatusCheck now, [])
      else if pathname request = js ''/'' \<and> method request = js ''GET''
      then (\<lparr>status = 200,
             headers = [(js ''Content-Type'', js ''text/html'')],
             body = HtmlBody HTMLInterface\<rparr>, [])
      else (\<lparr>status = 404, headers = [], body = TextBody (js ''Not Found'')\<rparr>, []))"

section \<open>The file-based server\<close>

text \<open>
  The file system is the set of paths that exist. \<open>fs.unlinkSync\<close> removes a path and
  throws when it is absent. The inputs of one \<open>POST /convert\<close> are the path multer stored
  the upload under (\<open>req.file\<close> is \<open>undefined\<close> when the form has no file), the UUID
  drawn for the output name, the event the ffmpeg command ends with, and how
  \<open>res.download\<close> ends. \<open>path.join('output', name)\<close> is \<open>output/name\<close>.
\<close>

type_synonym path = jsstring

definition unlinkSync :: "path \<Rightarrow> path set \<Rightarrow> js_error + path set" where
  "unlinkSync p fs =
     (if p \<in> fs then Inr (fs - {p})
      else Inl (Error (js ''ENOENT: no such file or directory'')))"

text \<open>
  \<open>on_end\<close>: ffmpeg wrote the output file. \<open>on_error written\<close>: ffmpeg failed, after
  creating the output file or not. \<open>callback_fired\<close>: \<open>res.download\<close> called its callback,
  after the transfer or after a transfer error; \<open>download_threw\<close>: it threw before.
\<close>

datatype ffmpeg_event = on_end | on_error bool

datatype download_outcome = callback_fired | download_threw

text \<open>
  How the handler ends: \<open>res.download\<close> of a path went through, a status and a text were
  sent, or an exception escaped the handler.
\<close>

datatype handler_result = downloaded path | sent nat jsstring | uncaught js_error

definition ffmpeg_save :: "ffmpeg_event \<Rightarrow> path \<Rightarrow> path set \<Rightarrow> path set" where
  "ffmpeg_save ev outputPath fs =
     (case ev of
        on_end \<Rightarrow> insert outputPath fs
      | on_error written \<Rightarrow> if written then insert outputPath fs else fs)"

definition post_convert ::
  "path set \<Rightarrow> path option \<Rightarrow> jsstring \<Rightarrow> ffmpeg_event \<Rightarrow> download_outcome
     \<Rightarrow> path set \<times> handler_result" where
  "post_convert fs req_file uuid ev dl =
     (case req_file of
        None \<Rightarrow>
          (fs, uncaught (TypeError (js ''Cannot read properties of undefined (reading 'path')'')))
      | Some inputPath \<Rightarrow>
          (let outputName = uuid @ js ''.mp3'';
               outputPath = js ''output/'' @ outputName;
               fs1 = ffmpeg_save ev outputPath fs
           in case ev of
                on_error written \<Rightarrow> (fs1, sent 500 (js ''Conversion failed''))
              | on_end \<Rightarrow>
                  (case unlinkSync inputPath fs1 of
                     Inl e \<Rightarrow> (fs1, uncaught e)
                   | Inr fs2 \<Rightarrow>
                       (case dl of
                          download_threw \<Rightarrow>
                            (fs2, uncaught (Error (js ''download failed'')))
                        | callback_fired \<Rightarrow>
                            (case unlinkSync outputPath fs2 of
                               Inl e \<Rightarrow> (fs2, uncaught e)
                             | Inr fs3 \<Rightarrow> (fs3, downloaded outputPath))))))"

section \<open>The lists of the specification\<close>

text \<open>
  The canonical allow-lists as the specification enumerates them: the union of the
  variants' media types, and the extension list.
\<close>

definition spec_mime_types :: "jsstring list" where
  "spec_mime_types =
     [js ''video/mp4'', js ''video/avi'', js ''video/mov'', js ''video/mkv'', js ''video/webm'',
      js ''video/wmv'', js ''video/flv'']"

definition spec_formats :: "jsstring list" where
  "spec_formats = [js ''mp4'', js ''avi'', js ''mov'', js ''mkv'', js ''webm'', js ''flv'', js ''wmv'']"

section \<open>Sample inputs\<close>

text \<open>
  Concrete requests on which the theorems below are instantiated: a timestamp, a request
  without a body, and a multipart upload of one file in the field \<open>video\<close>.
\<close>

definition sample_now :: jsstring where
  "sample_now = js ''2024-01-01T00:00:00.000Z''"

definition plain_request :: "jsstring \<Rightarrow> jsstring \<Rightarrow> request" where
  "plain_request m p =
     \<lparr>method = m, pathname = p, content_type = None,
      formData = Inl (js ''Unrecognized Content-Type header value'')\<rparr>"

definition upload_request :: "File \<Rightarrow> request" where
  "upload_request f =
     \<lparr>method = js ''POST'', pathname = js ''/api/convert'',
      content_type = Some (js ''multipart/form-data; boundary=x''),
      formData = Inr [(js ''video'', FileEntry f)]\<rparr>"

text \<open>The file a request carries in the field \<open>video\<close> of its form, if it carries one.\<close>

definition video_field :: "request \<Rightarrow> File option" where
  "video_field request =
     (case formData request of
        Inl m \<Rightarrow> None
      | Inr fd \<Rightarrow>
          (case form_get fd (js ''video'') of
             Some (FileEntry f) \<Rightarrow> Some f
           | _ \<Rightarrow> None))"

text \<open>The field \<open>k\<close> of the object \<open>limits\<close> of a JSON body.\<close>

definition limits_field :: "response \<Rightarrow> jsstring \<Rightarrow> json option" where
  "limits_field r k =
     (case json_field (body r) (js ''limits'') of
        Some (JObject kvs) \<Rightarrow> map_of kvs k
      | _ \<Rightarrow> None)"

section \<open>Literals\<close>

text \<open>
  Two literals are the same string only when they are written the same; the escaped
  quote of a literal is the unit 0x22.
\<close>

lemma quote_unit: "js ''\"'' = [0x22]"
  by (simp add: js_def)

lemma of_char_word16_eq_iff: "(of_char c :: 16 word) = of_char d \<longleftrightarrow> c = d"
proof
  assume a: "(of_char c :: 16 word) = of_char d"
  have lt: "(of_char x :: nat) < 2 ^ 16" for x
  proof -
    have "(of_char x :: nat) mod 256 = of_char x" by simp
    then have "(of_char x :: nat) < 256"
      by (metis mod_less_divisor zero_less_numeral)
    also have "(256::nat) < 2 ^ 16" by simp
    finally show ?thesis .
  qed
  from a have "(of_nat (of_char c) :: 16 word) = of_nat (of_char d)"
    by (simp only: of_nat_of_char)
  then have "take_bit 16 (of_char c :: nat) = take_bit 16 (of_char d :: nat)"
    by (simp add: word_of_nat_eq_iff)
  then have "(of_char c :: nat) = of_char d"
    using lt [of c] lt [of d] by (simp add: take_bit_nat_eq_self)
  then show "c = d" by simp
qed simp

lemma js_eq_iff: "js a = js b \<longleftrightarrow> a = b"
proof -
  have "inj (of_char :: char \<Rightarrow> 16 word)"
    by (rule injI) (simp add: of_char_word16_eq_iff)
  then show ?thesis
    by (simp add: js_def)
qed

section \<open>The placeholder conversion\<close>

lemma simpleVideoToMp3Conversion_eq:
  "simpleVideoToMp3Conversion videoBuffer = Inr ([0xFF, 0xFB, 0x90, 0x00] @ replicate 1036 0)"
proof -
  have "replicate 1036 (0::byte) = replicate 12 0 @ replicate 1024 0"
    by (simp only: replicate_add [symmetric]) simp
  then show ?thesis
    by (simp add: simpleVideoToMp3Conversion_def Uint8Array_def Uint8Array_set_def Let_def
        eval_nat_numeral)
qed

lemma convertVideoToMp3_eq:
  "convertVideoToMp3 videoFile = Some ([0xFF, 0xFB, 0x90, 0x00] @ replicate 1036 0)"
  by (simp add: convertVideoToMp3_def simpleVideoToMp3Conversion_eq)

text \<open>
  C9. The placeholder conversion does not look at its input: any two video buffers give
  the same result, a buffer of exactly 1040 bytes that starts with the sync header
  \<open>FF FB 90 00\<close> and is zero from there on. The same holds one level up, for
  \<open>convertVideoToMp3\<close> on any two files.
\<close>

theorem placeholder_is_constant:
  "simpleVideoToMp3Conversion b1 = simpleVideoToMp3Conversion b2
   \<and> (\<exists>out. simpleVideoToMp3Conversion b1 = Inr out \<and> length out = 1040
          \<and> take 4 out = [0xFF, 0xFB, 0x90, 0x00] \<and> drop 4 out = replicate 1036 0)
   \<and> convertVideoToMp3 f1 = convertVideoToMp3 f2"
  by (simp add: simpleVideoToMp3Conversion_eq convertVideoToMp3_eq)

section \<open>Lower-casing\<close>

text \<open>
  Facts of the table: its first entry is the Basic Latin capitals and every other entry
  starts at U+00C0 or later; every lower-case form is at least U+0061 and a code point.
\<close>

lemma lower_table_head: "lower_table = (0x41, 0x5A, 1, 0x61) # tl lower_table"
  by (simp add: lower_table_def)

lemma lower_table_tail: "list_all (\<lambda>(lo, hi, st, lo'). 0xC0 \<le> lo) (tl lower_table)"
  by (simp add: lower_table_def)

lemma lower_table_bounds:
  "list_all (\<lambda>(lo, hi, st, lo'). 0x61 \<le> lo' \<and> lo' + (hi - lo) < 0x110000) lower_table"
  by (simp add: lower_table_def)

lemma lookup_lower_below:
  "list_all (\<lambda>(lo, hi, st, lo'). b \<le> lo) tbl \<Longrightarrow> c < b \<Longrightarrow> lookup_lower tbl c = None"
  by (induction tbl) auto

lemma lookup_lower_range:
  "list_all (\<lambda>(lo, hi, st, lo'). a \<le> lo' \<and> lo' + (hi - lo) < b) tbl
     \<Longrightarrow> lookup_lower tbl c = Some l \<Longrightarrow> a \<le> l \<and> l < b"
  by (induction tbl) (auto split: if_splits)

lemma lookup_lower_basic:
  assumes "c < 0xC0"
  shows "lookup_lower lower_table c = (if 0x41 \<le> c \<and> c \<le> 0x5A then Some (c + 0x20) else None)"
proof -
  have "lookup_lower (tl lower_table) c = None"
    using lower_table_tail assms by (rule lookup_lower_below)
  then show ?thesis
    by (subst lower_table_head) auto
qed

lemma lower_cp_basic:
  "c < 0xC0 \<Longrightarrow> lower_cp before c after = [if 0x41 \<le> c \<and> c \<le> 0x5A then c + 0x20 else c]"
  by (simp add: lower_cp_def lookup_lower_basic)

lemma lower_cp_dotted_I: "lower_cp before 0x130 after = [0x69, 0x307]"
  by (simp add: lower_cp_def)

lemma lookup_lower_307: "lookup_lower lower_table 0x307 = None"
  unfolding lower_table_def by (simp only: lookup_lower.simps) simp

lemma lookup_lower_kelvin: "lookup_lower lower_table 0x212A = Some 0x6B"
  unfolding lower_table_def by (simp only: lookup_lower.simps) simp

lemma lookup_lower_alpha: "lookup_lower lower_table 0x391 = Some 0x3B1"
  unfolding lower_table_def by (simp only: lookup_lower.simps) simp

lemma cased_alpha: "cased_follows [0x391]"
  unfolding cased_follows.simps case_ignorable_table_def cased_table_def
  by (simp only: in_ranges.simps) simp

text \<open>
  On a string of Basic Latin units, lower-casing works unit by unit: the capital letters
  move up by 0x20 and every other unit stays.
\<close>

lemma StringToCodePoints_ascii:
  "\<forall>u\<in>set s. u < 0x80 \<Longrightarrow> StringToCodePoints s = map unat s"
proof (induction s rule: StringToCodePoints.induct)
  case (3 u v us)
  from 3(3) have "u < 0x80" by simp
  then have "unat u < 0xD800" by (simp add: word_less_nat_alt)
  with 3 show ?case by simp
qed simp_all

lemma lower_cps_ascii:
  "\<forall>c\<in>set cs. c < 0x80 \<Longrightarrow>
     lower_cps before cs = map (\<lambda>c. if 0x41 \<le> c \<and> c \<le> 0x5A then c + 0x20 else c) cs"
  by (induction cs arbitrary: before) (simp_all add: lower_cp_basic)

lemma CodePointsToString_bmp:
  "\<forall>c\<in>set cs. c < 0x10000 \<Longrightarrow> CodePointsToString cs = map of_nat cs"
  by (induction cs) simp_all

lemma ascii_unit:
  fixes u :: "16 word"
  assumes "u < 0x80"
  shows "(of_nat (if 0x41 \<le> unat u \<and> unat u \<le> 0x5A then unat u + 0x20 else unat u) :: 16 word)
     = (if 0x41 \<le> u \<and> u \<le> 0x5A then u + 0x20 else u)"
  by (simp add: word_le_nat_alt)

lemma toLowerCase_ascii:
  assumes "\<forall>u\<in>set s. u < 0x80"
  shows "toLowerCase s = map (\<lambda>u. if 0x41 \<le> u \<and> u \<le> 0x5A then u + 0x20 else u) s"
proof -
  have u: "\<forall>u\<in>set s. unat u < 0x80"
    using assms by (simp add: word_less_nat_alt)
  then have 1: "\<forall>c\<in>set (map unat s). c < 0x80" by simp
  have 2: "\<forall>c\<in>set (map (\<lambda>c. if 0x41 \<le> c \<and> c \<le> 0x5A then c + 0x20 else c) (map unat s)).
      c < 0x10000"
    using u by auto
  show ?thesis
    unfolding toLowerCase_def StringToCodePoints_ascii [OF assms] lower_cps_ascii [OF 1]
      CodePointsToString_bmp [OF 2]
    using assms by (simp add: ascii_unit o_def)
qed

text \<open>
  Three code points beyond Latin-1: the Kelvin sign U+212A lower-cases to \<open>k\<close>, so a name
  ending in \<open>.m\<close>, U+212A, \<open>v\<close> has the extension \<open>.mkv\<close>; a capital sigma after a cased
  letter at the end of the string becomes the final sigma; U+0130 becomes two units.
\<close>

lemma toLowerCase_kelvin:
  "toLowerCase (js ''clip.m'' @ [0x212A] @ js ''v'') = js ''clip.mkv''"
proof -
  have k: "lower_cp before 0x212A after = [0x6B]" for before after
    by (simp add: lower_cp_def lookup_lower_kelvin)
  show ?thesis
    by (simp add: toLowerCase_def js_def lower_cp_basic k)
qed

lemma isVideoFile_kelvin: "isVideoFile (js ''clip.m'' @ [0x212A] @ js ''v'')"
proof -
  have "lastIndexOf (js ''clip.m'' @ [0x212A] @ js ''v'') 0x2E = 4"
    by (simp add: js_def)
  then show ?thesis
    unfolding isVideoFile_def Let_def toLowerCase_kelvin
    by (simp add: substring_def array_includes_def videoExtensions_def js_def)
qed

lemma toLowerCase_final_sigma:
  "toLowerCase [0x391, 0x3A3] = [0x3B1, 0x3C2]"
  "toLowerCase [0x3A3, 0x391] = [0x3C3, 0x3B1]"
proof -
  have a: "lower_cp before 0x391 after = [0x3B1]" for before after
    by (simp add: lower_cp_def lookup_lower_alpha)
  have s1: "lower_cp [0x391] 0x3A3 [] = [0x3C2]"
    using cased_alpha by (simp add: lower_cp_def del: cased_follows.simps(2))
  have s2: "lower_cp [] 0x3A3 [0x391] = [0x3C3]"
    by (simp add: lower_cp_def del: cased_follows.simps(2))
  show "toLowerCase [0x391, 0x3A3] = [0x3B1, 0x3C2]"
    by (simp add: toLowerCase_def a s1)
  show "toLowerCase [0x3A3, 0x391] = [0x3C3, 0x3B1]"
    by (simp add: toLowerCase_def a s2)
qed

lemma toLowerCase_dotted_I:
  "toLowerCase [0x130, 0x2E, 0x6D, 0x70, 0x34] = [0x69, 0x307, 0x2E, 0x6D, 0x70, 0x34]"
  by (simp add: toLowerCase_def lower_cp_basic lower_cp_dotted_I)

lemma toLowerCase_i_dot:
  "toLowerCase [0x69, 0x307, 0x2E, 0x6D, 0x70, 0x34] = [0x69, 0x307, 0x2E, 0x6D, 0x70, 0x34]"
proof -
  have d: "lower_cp before 0x307 after = [0x307]" for before after
    by (simp add: lower_cp_def lookup_lower_307)
  show ?thesis
    by (simp add: toLowerCase_def lower_cp_basic d)
qed

section \<open>What the convert handlers return\<close>

lemma str_includes_nonempty: "str_includes ct (js ''multipart/form-data'') \<Longrightarrow> ct \<noteq> []"
  by (auto simp: js_def)

lemma handleConversion_upload:
  assumes "content_type request = Some ct"
    and "str_includes ct (js ''multipart/form-data'')"
    and "formData request = Inr fd"
    and "form_get fd (js ''video'') = Some (FileEntry f)"
  shows "handleConversion now request =
     (if \<not> array_includes allowedTypes (ftype f) \<and> \<not> isVideoFile (name f)
      then (createErrorResponse now (js ''Invalid video file type'') 400, [])
      else if maxSize < fsize f
      then (createErrorResponse now (js ''File too large. Maximum size is 50MB'') 400, [])
      else (\<lparr>status = 200,
             headers =
               [(js ''Content-Type'', js ''audio/mpeg''),
                (js ''Content-Disposition'',
                 js ''attachment; filename=\"'' @ (replace_ext (name f) @ js ''.mp3'') @ js ''\"''),
                (js ''Access-Control-Allow-Origin'', js ''*''),
                (js ''Content-Length'', toString (length ([0xFF, 0xFB, 0x90, 0x00] @ replicate 1036 (0::byte))))],
             body = BinaryBody ([0xFF, 0xFB, 0x90, 0x00] @ replicate 1036 0)\<rparr>, [f]))"
  using assms str_includes_nonempty [OF assms(2)]
  unfolding handleConversion_def
  by (simp add: convertVideoToMp3_eq Let_def del: toString.simps)

lemma status_createErrorResponse: "status (createErrorResponse now m st) = st"
  by (simp add: createErrorResponse_def)

lemma message_createErrorResponse:
  "json_field (body (createErrorResponse now m st)) (js ''message'') = Some (JString m)"
  by (simp add: createErrorResponse_def js_def)

lemma cors_createErrorResponse:
  "header (createErrorResponse now m st) (js ''Access-Control-Allow-Origin'') = Some (js ''*'')"
  by (simp add: createErrorResponse_def header_def js_def)

lemma messages_differ:
  "js ''File too large. Maximum size is 50MB'' \<noteq> js ''Invalid video file type''"
  by (simp add: js_def)

lemma convertVideoToMP3_eq:
  "convertVideoToMP3 videoFile =
     Inl (Error (js ''Conversion failed: ''
        @ js ''Video conversion requires FFmpeg or external service integration''))"
  by (simp add: convertVideoToMP3_def)

lemma handleVideoConversion_upload:
  assumes "formData request = Inr fd"
    and "form_get fd (js ''video'') = Some (FileEntry f)"
  shows "handleVideoConversion request =
     (if \<not> array_includes allowedTypes' (ftype f) then (invalid_type_response, [])
      else if maxSize < fsize f
      then (createResponse [(js ''error'', JString (js ''File size exceeds 50MB limit''))] 400, [])
      else (createResponse
              [(js ''error'',
                JString (js ''Conversion failed: '' @ js ''Conversion failed: ''
                  @ js ''Video conversion requires FFmpeg or external service integration''))]
              500, [f]))"
  using assms unfolding handleVideoConversion_def
  by (simp add: convertVideoToMP3_eq)

lemma status_createResponse: "status (createResponse d st) = st"
  by (simp add: createResponse_def)

lemma error_createResponse:
  "json_field (body (createResponse [(js ''error'', v)] st)) (js ''error'') = Some v"
  by (simp add: createResponse_def)

lemma cors_createResponse:
  "header (createResponse d st) (js ''Access-Control-Allow-Origin'') = Some (js ''*'')"
  by (simp add: createResponse_def header_def js_def)

lemma status_invalid_type_response: "status invalid_type_response = 400"
  by (simp add: invalid_type_response_def status_createResponse)

lemma error_invalid_type_response:
  "json_field (body invalid_type_response) (js ''error'') =
     Some (JString (js ''Invalid file type. Supported formats: MP4, AVI, MOV, WMV, FLV, WEBM''))"
  by (simp add: invalid_type_response_def error_createResponse)

lemma errors_differ:
  "js ''File size exceeds 50MB limit''
     \<noteq> js ''Invalid file type. Supported formats: MP4, AVI, MOV, WMV, FLV, WEBM''"
  by (simp add: js_def)

lemma sample_content_type:
  "str_includes (js ''multipart/form-data; boundary=x'') (js ''multipart/form-data'')"
  by (simp add: js_def)

lemma upload_request_hyps:
  "content_type (upload_request f) = Some (js ''multipart/form-data; boundary=x'')"
  "formData (upload_request f) = Inr [(js ''video'', FileEntry f)]"
  "form_get [(js ''video'', FileEntry f)] (js ''video'') = Some (FileEntry f)"
  by (simp_all add: upload_request_def form_get_def)

lemma handleConversion_no_file:
  assumes "content_type request = Some ct"
    and "str_includes ct (js ''multipart/form-data'')"
    and "formData request = Inr fd"
    and "video_field request = None"
  shows "handleConversion now request =
           (createErrorResponse now (js ''No video file provided'') 400, [])"
  using assms str_includes_nonempty [OF assms(2)]
  unfolding handleConversion_def video_field_def
  by (simp split: option.splits form_entry.splits)

lemma handleVideoConversion_no_file:
  assumes "formData request = Inr fd"
    and "video_field request = None"
  shows "status (fst (handleVideoConversion request)) = 400
         \<and> snd (handleVideoConversion request) = []"
  using assms unfolding handleVideoConversion_def video_field_def
  by (simp add: status_createResponse status_invalid_type_response
      split: option.splits form_entry.splits)

lemma video_field_Some:
  "formData request = Inr fd \<Longrightarrow> video_field request = Some f
     \<Longrightarrow> form_get fd (js ''video'') = Some (FileEntry f)"
  unfolding video_field_def by (simp split: option.splits form_entry.splits)

lemma video_field_upload_request: "video_field (upload_request f) = Some f"
  by (simp add: video_field_def upload_request_def form_get_def)

lemma isVideoFile_clip_mov: "isVideoFile (js ''clip.MOV'')"
  by (simp add: isVideoFile_def toLowerCase_ascii substring_def
      array_includes_def videoExtensions_def js_def Let_def)

lemma isVideoFile_clip_mp4: "isVideoFile (js ''clip.mp4'')"
  by (simp add: isVideoFile_def toLowerCase_ascii substring_def
      array_includes_def videoExtensions_def js_def Let_def)


lemma success_keys_distinct:
  "js ''Content-Type'' \<noteq> js ''Content-Disposition''"
  "js ''Content-Type'' \<noteq> js ''Access-Control-Allow-Origin''"
  "js ''Content-Type'' \<noteq> js ''Content-Length''"
  "js ''Content-Disposition'' \<noteq> js ''Content-Type''"
  "js ''Content-Disposition'' \<noteq> js ''Access-Control-Allow-Origin''"
  "js ''Content-Disposition'' \<noteq> js ''Content-Length''"
  "js ''Access-Control-Allow-Origin'' \<noteq> js ''Content-Type''"
  "js ''Access-Control-Allow-Origin'' \<noteq> js ''Content-Disposition''"
  "js ''Access-Control-Allow-Origin'' \<noteq> js ''Content-Length''"
  "js ''Content-Length'' \<noteq> js ''Content-Type''"
  "js ''Content-Length'' \<noteq> js ''Content-Disposition''"
  "js ''Content-Length'' \<noteq> js ''Access-Control-Allow-Origin''"
  by (simp_all add: js_def)


lemma fsize_big:
  "50 * 1024 * 1024 < fsize \<lparr>name = n, ftype = t, bytes = replicate 52428801 0\<rparr>"
  by (simp add: fsize_def)

lemma toString_1040: "toString 1040 = js ''1040''"
  by (simp add: js_def)


lemma handleConversion_bad_header:
  assumes "case content_type request of None \<Rightarrow> True
           | Some c \<Rightarrow> \<not> str_includes c (js ''multipart/form-data'')"
  shows "handleConversion now request =
           (createErrorResponse now (js ''Content-Type must be multipart/form-data'') 400, [])"
  using assms unfolding handleConversion_def
  by (simp split: option.splits)

text \<open>\<open>String.prototype.includes\<close> compares units: the header is matched as written.\<close>

lemma mixed_case_header:
  "\<not> str_includes (js ''Multipart/Form-Data; boundary=x'') (js ''multipart/form-data'')"
  by (simp add: js_def)

text \<open>
  The success branch of the second worker passes no Content-Length; since its adapter
  always throws, every response of its convert route is a JSON response.
\<close>

lemma mp3_response_headers:
  "status (mp3_response f b) = 200
   \<and> header (mp3_response f b) (js ''Content-Type'') = Some (js ''audio/mpeg'')
   \<and> header (mp3_response f b) (js ''Content-Length'') = None"
  by (simp add: mp3_response_def header_def js_eq_iff)



text \<open>
  An upload named \<open>clip.m\<close>, U+212A, \<open>v\<close> with an empty declared type is accepted by
  worker.js through its extension.
\<close>

lemma kelvin_upload_accepted:
  "handleConversion now
     (upload_request \<lparr>name = js ''clip.m'' @ [0x212A] @ js ''v'', ftype = [], bytes = [1, 2, 3]\<rparr>)
   = (\<lparr>status = 200,
       headers =
         [(js ''Content-Type'', js ''audio/mpeg''),
          (js ''Content-Disposition'', js ''attachment; filename=\"clip.mp3\"''),
          (js ''Access-Control-Allow-Origin'', js ''*''),
          (js ''Content-Length'', js ''1040'')],
       body = BinaryBody ([0xFF, 0xFB, 0x90, 0x00] @ replicate 1036 0)\<rparr>,
      [\<lparr>name = js ''clip.m'' @ [0x212A] @ js ''v'', ftype = [], bytes = [1, 2, 3]\<rparr>])"
proof -
  let ?f = "\<lparr>name = js ''clip.m'' @ [0x212A] @ js ''v'', ftype = [], bytes = [1, 2, 3]\<rparr>"
  note h = upload_request_hyps [of ?f]
  have len: "length ([0xFF, 0xFB, 0x90, 0x00] @ replicate 1036 (0::byte)) = 1040"
    by simp
  show ?thesis
    unfolding handleConversion_upload [OF h(1) sample_content_type h(2) h(3)] len toString_1040
    using isVideoFile_kelvin
    by (simp add: js_def maxSize_def fsize_def del: toString.simps)
qed

section \<open>Stripping the extension\<close>



section \<open>The type check\<close>

text \<open>
  C1 (amended). For an upload that carries a file in the field \<open>video\<close> (for worker.js:
  under a Content-Type header that contains \<open>multipart/form-data\<close>, as written),
  worker.js answers 400 with the message "Invalid video file type" exactly when the
  declared type is none of video/mp4, video/avi, video/mov, video/mkv, video/webm and
  \<open>isVideoFile\<close> rejects the file name: the lower-cased name, cut at the index the last
  dot has in the name as uploaded, is none of .mp4 .avi .mov .mkv .webm .flv .wmv. The
  second worker answers 400 with "Invalid file type. Supported formats: MP4, AVI, MOV,
  WMV, FLV, WEBM" exactly when the declared type is none of video/mp4, video/avi,
  video/mov, video/wmv, video/flv, video/webm, whatever the file name.
\<close>

theorem type_check_rejection:
  assumes "content_type request = Some ct"
    and "str_includes ct (js ''multipart/form-data'')"
    and "formData request = Inr fd"
    and "form_get fd (js ''video'') = Some (FileEntry f)"
  shows "((status (fst (handleConversion now request)) = 400
        \<and> json_field (body (fst (handleConversion now request))) (js ''message'')
            = Some (JString (js ''Invalid video file type'')))
      \<longleftrightarrow> (ftype f \<notin> set [js ''video/mp4'', js ''video/avi'', js ''video/mov'',
                             js ''video/mkv'', js ''video/webm'']
           \<and> \<not> isVideoFile (name f)))
    \<and> ((status (fst (handleVideoConversion request)) = 400
        \<and> json_field (body (fst (handleVideoConversion request))) (js ''error'')
            = Some (JString
                (js ''Invalid file type. Supported formats: MP4, AVI, MOV, WMV, FLV, WEBM'')))
      \<longleftrightarrow> ftype f \<notin> set [js ''video/mp4'', js ''video/avi'', js ''video/mov'',
                            js ''video/wmv'', js ''video/flv'', js ''video/webm''])"
proof -
  have v1: "(status (fst (handleConversion now request)) = 400
        \<and> json_field (body (fst (handleConversion now request))) (js ''message'')
            = Some (JString (js ''Invalid video file type'')))
      \<longleftrightarrow> (ftype f \<notin> set [js ''video/mp4'', js ''video/avi'', js ''video/mov'',
                             js ''video/mkv'', js ''video/webm'']
           \<and> \<not> isVideoFile (name f))"
    by (simp add: handleConversion_upload [OF assms] status_createErrorResponse
        message_createErrorResponse messages_differ array_includes_def allowedTypes_def
        del: toString.simps)
  have v3: "(status (fst (handleVideoConversion request)) = 400
        \<and> json_field (body (fst (handleVideoConversion request))) (js ''error'')
            = Some (JString
                (js ''Invalid file type. Supported formats: MP4, AVI, MOV, WMV, FLV, WEBM'')))
      \<longleftrightarrow> ftype f \<notin> set [js ''video/mp4'', js ''video/avi'', js ''video/mov'',
                            js ''video/wmv'', js ''video/flv'', js ''video/webm'']"
    by (simp add: handleVideoConversion_upload [OF assms(3,4)] status_createResponse
        error_createResponse status_invalid_type_response error_invalid_type_response
        errors_differ array_includes_def allowedTypes'_def)
  from v1 v3 show ?thesis by (rule conjI)
qed

theorem type_check_rejection_witness:
  "content_type (upload_request \<lparr>name = js ''notes.txt'', ftype = js ''text/plain'', bytes = [1, 2, 3]\<rparr>)
     = Some (js ''multipart/form-data; boundary=x'')
   \<and> str_includes (js ''multipart/form-data; boundary=x'') (js ''multipart/form-data'')
   \<and> formData (upload_request \<lparr>name = js ''notes.txt'', ftype = js ''text/plain'', bytes = [1, 2, 3]\<rparr>)
     = Inr [(js ''video'', FileEntry \<lparr>name = js ''notes.txt'', ftype = js ''text/plain'', bytes = [1, 2, 3]\<rparr>)]
   \<and> form_get [(js ''video'', FileEntry \<lparr>name = js ''notes.txt'', ftype = js ''text/plain'', bytes = [1, 2, 3]\<rparr>)]
        (js ''video'')
     = Some (FileEntry \<lparr>name = js ''notes.txt'', ftype = js ''text/plain'', bytes = [1, 2, 3]\<rparr>)
   \<and> status (fst (handleConversion sample_now
        (upload_request \<lparr>name = js ''notes.txt'', ftype = js ''text/plain'', bytes = [1, 2, 3]\<rparr>))) = 400
   \<and> json_field (body (fst (handleConversion sample_now
        (upload_request \<lparr>name = js ''notes.txt'', ftype = js ''text/plain'', bytes = [1, 2, 3]\<rparr>))))
        (js ''message'') = Some (JString (js ''Invalid video file type''))
   \<and> status (fst (handleVideoConversion
        (upload_request \<lparr>name = js ''notes.txt'', ftype = js ''text/plain'', bytes = [1, 2, 3]\<rparr>))) = 400"
proof -
  let ?f = "\<lparr>name = js ''notes.txt'', ftype = js ''text/plain'', bytes = [1, 2, 3]\<rparr>"
  have nv: "\<not> isVideoFile (js ''notes.txt'')"
    by (simp add: isVideoFile_def toLowerCase_ascii substring_def
        array_includes_def videoExtensions_def js_def Let_def)
  have t1: "js ''text/plain'' \<notin> set [js ''video/mp4'', js ''video/avi'', js ''video/mov'',
                             js ''video/mkv'', js ''video/webm'']"
    by (simp add: js_def)
  have t3: "js ''text/plain'' \<notin> set [js ''video/mp4'', js ''video/avi'', js ''video/mov'',
                            js ''video/wmv'', js ''video/flv'', js ''video/webm'']"
    by (simp add: js_def)
  note h = upload_request_hyps [of ?f]
  from type_check_rejection [OF h(1) sample_content_type h(2) h(3), where now = sample_now]
    nv t1 t3
  show ?thesis by (simp add: h sample_content_type)
qed

text \<open>
  The claim as first stated fails on worker.js: video/wmv is in the canonical list of
  media types, and an upload declaring it under the name x.bin is rejected.
\<close>

theorem type_check_counterexample:
  "status (fst (handleConversion sample_now
      (upload_request \<lparr>name = js ''x.bin'', ftype = js ''video/wmv'', bytes = [1, 2, 3]\<rparr>))) = 400
   \<and> json_field (body (fst (handleConversion sample_now
      (upload_request \<lparr>name = js ''x.bin'', ftype = js ''video/wmv'', bytes = [1, 2, 3]\<rparr>))))
      (js ''message'') = Some (JString (js ''Invalid video file type''))
   \<and> js ''video/wmv'' \<in> set spec_mime_types"
proof -
  let ?f = "\<lparr>name = js ''x.bin'', ftype = js ''video/wmv'', bytes = [1, 2, 3]\<rparr>"
  have nv: "\<not> isVideoFile (js ''x.bin'')"
    by (simp add: isVideoFile_def toLowerCase_ascii substring_def
        array_includes_def videoExtensions_def js_def Let_def)
  have t1: "\<not> array_includes allowedTypes (js ''video/wmv'')"
    by (simp add: array_includes_def allowedTypes_def js_def)
  have m: "js ''video/wmv'' \<in> set spec_mime_types"
    by (simp add: spec_mime_types_def js_def)
  note h = upload_request_hyps [of ?f]
  from handleConversion_upload [OF h(1) sample_content_type h(2) h(3), where now = sample_now]
    nv t1 m
  show ?thesis
    by (simp add: status_createErrorResponse message_createErrorResponse)
qed

section \<open>Validation before conversion\<close>

lemma validation_cases:
  assumes "content_type request = Some ct"
    and "str_includes ct (js ''multipart/form-data'')"
    and "formData request = Inr fd"
  shows "(case video_field request of
       None \<Rightarrow>
         status (fst (handleConversion now request)) = 400
         \<and> snd (handleConversion now request) = []
         \<and> status (fst (handleVideoConversion request)) = 400
         \<and> snd (handleVideoConversion request) = []
     | Some f \<Rightarrow>
         (if (ftype f \<in> set [js ''video/mp4'', js ''video/avi'', js ''video/mov'',
                              js ''video/mkv'', js ''video/webm'']
               \<or> isVideoFile (name f))
             \<and> fsize f \<le> 50 * 1024 * 1024
          then status (fst (handleConversion now request)) = 200
               \<and> snd (handleConversion now request) = [f]
          else status (fst (handleConversion now request)) = 400
               \<and> snd (handleConversion now request) = [])
         \<and> (if ftype f \<in> set [js ''video/mp4'', js ''video/avi'', js ''video/mov'',
                                js ''video/wmv'', js ''video/flv'', js ''video/webm'']
                \<and> fsize f \<le> 50 * 1024 * 1024
             then status (fst (handleVideoConversion request)) = 500
                  \<and> snd (handleVideoConversion request) = [f]
             else status (fst (handleVideoConversion request)) = 400
                  \<and> snd (handleVideoConversion request) = []))"
proof (cases "video_field request")
  case None
  from handleConversion_no_file [OF assms None, of now]
    handleVideoConversion_no_file [OF assms(3) None] None
  show ?thesis by (simp add: status_createErrorResponse)
next
  case (Some f)
  note g = video_field_Some [OF assms(3) Some]
  have v1: "(if (ftype f \<in> set [js ''video/mp4'', js ''video/avi'', js ''video/mov'',
                              js ''video/mkv'', js ''video/webm'']
               \<or> isVideoFile (name f))
             \<and> fsize f \<le> 50 * 1024 * 1024
          then status (fst (handleConversion now request)) = 200
               \<and> snd (handleConversion now request) = [f]
          else status (fst (handleConversion now request)) = 400
               \<and> snd (handleConversion now request) = [])"
    by (simp add: handleConversion_upload [OF assms g] status_createErrorResponse
        array_includes_def allowedTypes_def maxSize_def del: toString.simps)
  have v3: "(if ftype f \<in> set [js ''video/mp4'', js ''video/avi'', js ''video/mov'',
                                js ''video/wmv'', js ''video/flv'', js ''video/webm'']
                \<and> fsize f \<le> 50 * 1024 * 1024
             then status (fst (handleVideoConversion request)) = 500
                  \<and> snd (handleVideoConversion request) = [f]
             else status (fst (handleVideoConversion request)) = 400
                  \<and> snd (handleVideoConversion request) = [])"
    by (simp add: handleVideoConversion_upload [OF assms(3) g] status_createResponse
        status_invalid_type_response array_includes_def allowedTypes'_def maxSize_def)
  from v1 v3 Some show ?thesis by simp
qed

lemma handleConversion_400_no_call:
  "status (fst (handleConversion now request)) = 400 \<Longrightarrow> snd (handleConversion now request) = []"
  unfolding handleConversion_def
  by (auto simp: status_createErrorResponse convertVideoToMp3_eq Let_def
      split: option.splits sum.splits form_entry.splits if_splits simp del: toString.simps)

lemma handleVideoConversion_400_no_call:
  "status (fst (handleVideoConversion request)) = 400 \<Longrightarrow> snd (handleVideoConversion request) = []"
  unfolding handleVideoConversion_def
  by (auto simp: status_createResponse status_invalid_type_response convertVideoToMP3_eq
      split: option.splits sum.splits form_entry.splits if_splits)

text \<open>
  C2 (amended). Whenever a convert handler answers 400, it has not called the adapter.
  worker.js reads the form only under a Content-Type header that contains
  \<open>multipart/form-data\<close>, as written; under any other header, or none, it answers 400 with
  "Content-Type must be multipart/form-data" and calls nothing. For a request whose form
  was parsed (for worker.js: under such a header): when the field \<open>video\<close> holds no file,
  both workers answer 400 and never call the adapter. When it holds the file \<open>f\<close>,
  worker.js calls \<open>convertVideoToMp3\<close> exactly once, with \<open>f\<close>, and answers 200 if \<open>f\<close> has
  one of its five media types or a name \<open>isVideoFile\<close> accepts, and at most 50 MiB;
  otherwise it answers 400 without a call. The second worker calls \<open>convertVideoToMP3\<close>
  exactly once, with \<open>f\<close>, if \<open>f\<close> has one of its six media types and at most 50 MiB (the
  call throws, and the answer is 500); otherwise it answers 400 without a call. It never
  looks at the extension.
\<close>

theorem validation_gates_adapter:
  "(status (fst (handleConversion now request)) = 400
      \<longrightarrow> snd (handleConversion now request) = [])
   \<and> (status (fst (handleVideoConversion request)) = 400
      \<longrightarrow> snd (handleVideoConversion request) = [])
   \<and> (content_type request = Some ct \<and> str_includes ct (js ''multipart/form-data'')
       \<and> formData request = Inr fd
      \<longrightarrow>
       (case video_field request of
           None \<Rightarrow>
             status (fst (handleConversion now request)) = 400
             \<and> snd (handleConversion now request) = []
             \<and> status (fst (handleVideoConversion request)) = 400
             \<and> snd (handleVideoConversion request) = []
         | Some f \<Rightarrow>
             (if (ftype f \<in> set [js ''video/mp4'', js ''video/avi'', js ''video/mov'',
                                  js ''video/mkv'', js ''video/webm'']
                   \<or> isVideoFile (name f))
                 \<and> fsize f \<le> 50 * 1024 * 1024
              then status (fst (handleConversion now request)) = 200
                   \<and> snd (handleConversion now request) = [f]
              else status (fst (handleConversion now request)) = 400
                   \<and> snd (handleConversion now request) = [])
             \<and> (if ftype f \<in> set [js ''video/mp4'', js ''video/avi'', js ''video/mov'',
                                    js ''video/wmv'', js ''video/flv'', js ''video/webm'']
                    \<and> fsize f \<le> 50 * 1024 * 1024
                 then status (fst (handleVideoConversion request)) = 500
                      \<and> snd (handleVideoConversion request) = [f]
                 else status (fst (handleVideoConversion request)) = 400
                      \<and> snd (handleVideoConversion request) = [])))
   \<and> ((case content_type request of
          None \<Rightarrow> True
        | Some c \<Rightarrow> \<not> str_includes c (js ''multipart/form-data''))
      \<longrightarrow> status (fst (handleConversion now request)) = 400
          \<and> snd (handleConversion now request) = []
          \<and> json_field (body (fst (handleConversion now request))) (js ''message'')
              = Some (JString (js ''Content-Type must be multipart/form-data'')))"
proof -
  have header: "status (fst (handleConversion now request)) = 400
          \<and> snd (handleConversion now request) = []
          \<and> json_field (body (fst (handleConversion now request))) (js ''message'')
              = Some (JString (js ''Content-Type must be multipart/form-data''))"
    if "case content_type request of
          None \<Rightarrow> True
        | Some c \<Rightarrow> \<not> str_includes c (js ''multipart/form-data'')"
    by (simp add: handleConversion_bad_header [OF that] status_createErrorResponse
        message_createErrorResponse)
  with handleConversion_400_no_call [of now request]
    handleVideoConversion_400_no_call [of request]
    validation_cases [of request ct fd now]
  show ?thesis by blast
qed

text \<open>
  An instance, the scenario of the specification: clip.MOV declared as video/mov.
\<close>

theorem validation_gates_adapter_witness:
  "content_type (upload_request \<lparr>name = js ''clip.MOV'', ftype = js ''video/mov'', bytes = [1, 2, 3]\<rparr>)
     = Some (js ''multipart/form-data; boundary=x'')
   \<and> str_includes (js ''multipart/form-data; boundary=x'') (js ''multipart/form-data'')
   \<and> formData (upload_request \<lparr>name = js ''clip.MOV'', ftype = js ''video/mov'', bytes = [1, 2, 3]\<rparr>)
     = Inr [(js ''video'', FileEntry \<lparr>name = js ''clip.MOV'', ftype = js ''video/mov'', bytes = [1, 2, 3]\<rparr>)]
   \<and> status (fst (handleConversion sample_now
        (upload_request \<lparr>name = js ''clip.MOV'', ftype = js ''video/mov'', bytes = [1, 2, 3]\<rparr>))) = 200
   \<and> snd (handleConversion sample_now
        (upload_request \<lparr>name = js ''clip.MOV'', ftype = js ''video/mov'', bytes = [1, 2, 3]\<rparr>))
     = [\<lparr>name = js ''clip.MOV'', ftype = js ''video/mov'', bytes = [1, 2, 3]\<rparr>]
   \<and> status (fst (handleVideoConversion
        (upload_request \<lparr>name = js ''clip.MOV'', ftype = js ''video/mov'', bytes = [1, 2, 3]\<rparr>))) = 500
   \<and> snd (handleVideoConversion
        (upload_request \<lparr>name = js ''clip.MOV'', ftype = js ''video/mov'', bytes = [1, 2, 3]\<rparr>))
     = [\<lparr>name = js ''clip.MOV'', ftype = js ''video/mov'', bytes = [1, 2, 3]\<rparr>]
   \<and> \<not> str_includes (js ''Multipart/Form-Data; boundary=x'') (js ''multipart/form-data'')
   \<and> status (fst (handleConversion sample_now
        ((upload_request \<lparr>name = js ''clip.MOV'', ftype = js ''video/mov'', bytes = [1, 2, 3]\<rparr>)
           \<lparr>content_type := Some (js ''Multipart/Form-Data; boundary=x'')\<rparr>))) = 400
   \<and> snd (handleConversion sample_now
        ((upload_request \<lparr>name = js ''clip.MOV'', ftype = js ''video/mov'', bytes = [1, 2, 3]\<rparr>)
           \<lparr>content_type := Some (js ''Multipart/Form-Data; boundary=x'')\<rparr>)) = []"
proof -
  let ?f = "\<lparr>name = js ''clip.MOV'', ftype = js ''video/mov'', bytes = [1, 2, 3]\<rparr>"
  let ?r = "(upload_request ?f)\<lparr>content_type := Some (js ''Multipart/Form-Data; boundary=x'')\<rparr>"
  note h = upload_request_hyps [of ?f]
  have t: "js ''video/mov'' \<in> set [js ''video/mp4'', js ''video/avi'', js ''video/mov'',
                              js ''video/mkv'', js ''video/webm'']"
    "js ''video/mov'' \<in> set [js ''video/mp4'', js ''video/avi'', js ''video/mov'',
                                js ''video/wmv'', js ''video/flv'', js ''video/webm'']"
    by simp_all
  have sz: "fsize ?f \<le> 50 * 1024 * 1024"
    by (simp add: fsize_def)
  have good: "status (fst (handleConversion sample_now (upload_request ?f))) = 200
    \<and> snd (handleConversion sample_now (upload_request ?f)) = [?f]
    \<and> status (fst (handleVideoConversion (upload_request ?f))) = 500
    \<and> snd (handleVideoConversion (upload_request ?f)) = [?f]"
    using validation_gates_adapter [of sample_now "upload_request ?f"
      "js ''multipart/form-data; boundary=x''" "[(js ''video'', FileEntry ?f)]"]
      t sz
    by (simp add: h sample_content_type video_field_upload_request)
  have bad: "status (fst (handleConversion sample_now ?r)) = 400
    \<and> snd (handleConversion sample_now ?r) = []"
    using validation_gates_adapter [of sample_now ?r
      "js ''multipart/form-data; boundary=x''" "[(js ''video'', FileEntry ?f)]"]
      mixed_case_header
    by (simp add: upload_request_def)
  from good bad show ?thesis
    by (simp add: h sample_content_type mixed_case_header)
qed

text \<open>
  The claim as first stated fails on the second worker: clip.mp4 has an allowed
  extension and three bytes, and with an empty declared type it is rejected.
\<close>

theorem validation_gates_adapter_counterexample:
  "isVideoFile (name \<lparr>name = js ''clip.mp4'', ftype = [], bytes = [1, 2, 3]\<rparr>)
   \<and> fsize \<lparr>name = js ''clip.mp4'', ftype = [], bytes = [1, 2, 3]\<rparr> \<le> 50 * 1024 * 1024
   \<and> status (fst (handleVideoConversion
        (upload_request \<lparr>name = js ''clip.mp4'', ftype = [], bytes = [1, 2, 3]\<rparr>))) = 400
   \<and> snd (handleVideoConversion
        (upload_request \<lparr>name = js ''clip.mp4'', ftype = [], bytes = [1, 2, 3]\<rparr>)) = []"
proof -
  let ?f = "\<lparr>name = js ''clip.mp4'', ftype = [], bytes = [1, 2, 3]\<rparr>"
  note h = upload_request_hyps [of ?f]
  have t: "\<not> array_includes allowedTypes' (ftype ?f)"
    by (simp add: array_includes_def allowedTypes'_def js_def)
  from handleVideoConversion_upload [OF h(2) h(3)] t
  show ?thesis
    by (simp add: isVideoFile_clip_mp4 fsize_def status_invalid_type_response)
qed

section \<open>The size limit\<close>

text \<open>
  C3 (amended). An upload (a file in the field \<open>video\<close> of the parsed form; for worker.js
  under a Content-Type header that contains \<open>multipart/form-data\<close>, as written) of more
  than 50 * 1024 * 1024 bytes is answered with 400 by both workers, whatever its declared
  type, and the adapter is not called. When the type check has passed, the message of
  worker.js is "File too large. Maximum size is 50MB" and the error of the second worker
  is "File size exceeds 50MB limit"; when it has not, the answer is the one of the type
  check.
\<close>

theorem oversized_upload_rejected:
  assumes "content_type request = Some ct"
    and "str_includes ct (js ''multipart/form-data'')"
    and "formData request = Inr fd"
    and "form_get fd (js ''video'') = Some (FileEntry f)"
    and "50 * 1024 * 1024 < fsize f"
  shows "status (fst (handleConversion now request)) = 400
    \<and> snd (handleConversion now request) = []
    \<and> json_field (body (fst (handleConversion now request))) (js ''message'')
        = Some (JString
            (if ftype f \<in> set [js ''video/mp4'', js ''video/avi'', js ''video/mov'',
                                js ''video/mkv'', js ''video/webm'']
                \<or> isVideoFile (name f)
             then js ''File too large. Maximum size is 50MB''
             else js ''Invalid video file type''))
    \<and> status (fst (handleVideoConversion request)) = 400
    \<and> snd (handleVideoConversion request) = []
    \<and> json_field (body (fst (handleVideoConversion request))) (js ''error'')
        = Some (JString
            (if ftype f \<in> set [js ''video/mp4'', js ''video/avi'', js ''video/mov'',
                                js ''video/wmv'', js ''video/flv'', js ''video/webm'']
             then js ''File size exceeds 50MB limit''
             else js ''Invalid file type. Supported formats: MP4, AVI, MOV, WMV, FLV, WEBM''))"
proof -
  have big: "maxSize < fsize f"
    using assms(5) by (simp add: maxSize_def)
  have v1: "status (fst (handleConversion now request)) = 400
    \<and> snd (handleConversion now request) = []
    \<and> json_field (body (fst (handleConversion now request))) (js ''message'')
        = Some (JString
            (if ftype f \<in> set [js ''video/mp4'', js ''video/avi'', js ''video/mov'',
                                js ''video/mkv'', js ''video/webm'']
                \<or> isVideoFile (name f)
             then js ''File too large. Maximum size is 50MB''
             else js ''Invalid video file type''))"
    by (simp add: handleConversion_upload [OF assms(1-4)] big status_createErrorResponse
        message_createErrorResponse array_includes_def allowedTypes_def
        del: toString.simps)
  have v3: "status (fst (handleVideoConversion request)) = 400
    \<and> snd (handleVideoConversion request) = []
    \<and> json_field (body (fst (handleVideoConversion request))) (js ''error'')
        = Some (JString
            (if ftype f \<in> set [js ''video/mp4'', js ''video/avi'', js ''video/mov'',
                                js ''video/wmv'', js ''video/flv'', js ''video/webm'']
             then js ''File size exceeds 50MB limit''
             else js ''Invalid file type. Supported formats: MP4, AVI, MOV, WMV, FLV, WEBM''))"
    by (simp add: handleVideoConversion_upload [OF assms(3,4)] big status_createResponse
        error_createResponse status_invalid_type_response error_invalid_type_response
        array_includes_def allowedTypes'_def)
  from v1 v3 show ?thesis by simp
qed

theorem oversized_upload_rejected_witness:
  "content_type (upload_request
       \<lparr>name = js ''big.mp4'', ftype = js ''video/mp4'', bytes = replicate 52428801 0\<rparr>)
     = Some (js ''multipart/form-data; boundary=x'')
   \<and> str_includes (js ''multipart/form-data; boundary=x'') (js ''multipart/form-data'')
   \<and> 50 * 1024 * 1024
       < fsize \<lparr>name = js ''big.mp4'', ftype = js ''video/mp4'', bytes = replicate 52428801 0\<rparr>
   \<and> status (fst (handleConversion sample_now (upload_request
       \<lparr>name = js ''big.mp4'', ftype = js ''video/mp4'', bytes = replicate 52428801 0\<rparr>))) = 400
   \<and> snd (handleConversion sample_now (upload_request
       \<lparr>name = js ''big.mp4'', ftype = js ''video/mp4'', bytes = replicate 52428801 0\<rparr>)) = []
   \<and> json_field (body (fst (handleConversion sample_now (upload_request
       \<lparr>name = js ''big.mp4'', ftype = js ''video/mp4'', bytes = replicate 52428801 0\<rparr>))))
       (js ''message'') = Some (JString (js ''File too large. Maximum size is 50MB''))
   \<and> json_field (body (fst (handleVideoConversion (upload_request
       \<lparr>name = js ''big.mp4'', ftype = js ''video/mp4'', bytes = replicate 52428801 0\<rparr>))))
       (js ''error'') = Some (JString (js ''File size exceeds 50MB limit''))"
proof -
  let ?f = "\<lparr>name = js ''big.mp4'', ftype = js ''video/mp4'', bytes = replicate 52428801 0\<rparr>"
  note h = upload_request_hyps [of ?f]
  from oversized_upload_rejected [OF h(1) sample_content_type h(2) h(3) fsize_big,
      where now = sample_now]
  show ?thesis
    by (simp add: h(1) sample_content_type fsize_def)
qed

text \<open>
  The claim as first stated fails on the second worker: its text for an oversized
  upload is another one, under the key \<open>error\<close>, and its body has no \<open>message\<close>.
\<close>

theorem oversized_upload_counterexample:
  "50 * 1024 * 1024
       < fsize \<lparr>name = js ''big.mp4'', ftype = js ''video/mp4'', bytes = replicate 52428801 0\<rparr>
   \<and> json_field (body (fst (handleVideoConversion (upload_request
       \<lparr>name = js ''big.mp4'', ftype = js ''video/mp4'', bytes = replicate 52428801 0\<rparr>))))
       (js ''error'') = Some (JString (js ''File size exceeds 50MB limit''))
   \<and> js ''File size exceeds 50MB limit'' \<noteq> js ''File too large. Maximum size is 50MB''
   \<and> json_field (body (fst (handleVideoConversion (upload_request
       \<lparr>name = js ''big.mp4'', ftype = js ''video/mp4'', bytes = replicate 52428801 0\<rparr>))))
       (js ''message'') = None"
proof -
  let ?f = "\<lparr>name = js ''big.mp4'', ftype = js ''video/mp4'', bytes = replicate 52428801 0\<rparr>"
  note h = upload_request_hyps [of ?f]
  have t: "array_includes allowedTypes' (ftype ?f)"
    by (simp add: array_includes_def allowedTypes'_def)
  have big: "maxSize < fsize ?f"
    by (simp add: maxSize_def fsize_def)
  have d: "js ''File size exceeds 50MB limit'' \<noteq> js ''File too large. Maximum size is 50MB''"
    by (simp add: js_def)
  have k: "js ''error'' \<noteq> js ''message''"
    by (simp add: js_def)
  from handleVideoConversion_upload [OF h(2) h(3)] t big d k
  show ?thesis
    by (simp add: fsize_def createResponse_def)
qed

section \<open>The success response\<close>



section \<open>Cross-origin headers\<close>

lemma cors_success_response:
  "header \<lparr>status = st,
      headers = [(js ''Content-Type'', a), (js ''Content-Disposition'', b),
                 (js ''Access-Control-Allow-Origin'', c), (js ''Content-Length'', d)],
      body = bd\<rparr> (js ''Access-Control-Allow-Origin'') = Some c"
  by (simp add: header_def success_keys_distinct)

lemma cors_handleConversion:
  "header (fst (handleConversion now request)) (js ''Access-Control-Allow-Origin'')
     = Some (js ''*'')"
  unfolding handleConversion_def
  by (simp add: cors_createErrorResponse cors_success_response convertVideoToMp3_eq Let_def
      split: option.splits sum.splits form_entry.splits del: toString.simps)

lemma cors_invalid_type_response:
  "header invalid_type_response (js ''Access-Control-Allow-Origin'') = Some (js ''*'')"
  by (simp add: invalid_type_response_def cors_createResponse)

lemma cors_handleVideoConversion:
  "header (fst (handleVideoConversion request)) (js ''Access-Control-Allow-Origin'')
     = Some (js ''*'')"
  unfolding handleVideoConversion_def
  by (simp add: cors_createResponse cors_invalid_type_response convertVideoToMP3_eq
      split: option.splits sum.splits form_entry.splits)

lemma cors_handleStatus:
  "header (handleStatus now) (js ''Access-Control-Allow-Origin'') = Some (js ''*'')"
  by (simp add: handleStatus_def header_def js_def)

lemma cors_handleStatusCheck:
  "header (handleStatusCheck now) (js ''Access-Control-Allow-Origin'') = Some (js ''*'')"
  by (simp add: handleStatusCheck_def cors_createResponse)

lemma cors_handleCORS:
  "header handleCORS (js ''Access-Control-Allow-Origin'') = Some (js ''*'')"
  by (simp add: handleCORS_def header_def)

lemma cors_preflight:
  "header \<lparr>status = 200,
      headers = [(js ''Access-Control-Allow-Origin'', js ''*''),
                 (js ''Access-Control-Allow-Methods'', js ''GET, POST, OPTIONS''),
                 (js ''Access-Control-Allow-Headers'', js ''Content-Type, Authorization''),
                 (js ''Access-Control-Max-Age'', js ''86400'')],
      body = NoBody\<rparr> (js ''Access-Control-Allow-Origin'') = Some (js ''*'')"
  by (simp add: header_def)

text \<open>
  C5 (amended). For every request with method OPTIONS, every POST /api/convert and
  every GET /api/status, the response of either worker (preflight, success or error)
  carries \<open>Access-Control-Allow-Origin: *\<close>. The GET / page is served with a
  Content-Type header only.
\<close>

theorem cors_on_api_routes:
  "(method request = js ''OPTIONS''
      \<or> pathname request = js ''/api/convert'' \<and> method request = js ''POST''
      \<or> pathname request = js ''/api/status'' \<and> method request = js ''GET''
    \<longrightarrow> header (fst (fetch now request)) (js ''Access-Control-Allow-Origin'') = Some (js ''*'')
        \<and> header (fst (handleRequest now request)) (js ''Access-Control-Allow-Origin'')
            = Some (js ''*''))
   \<and> (pathname request = js ''/'' \<and> method request = js ''GET''
    \<longrightarrow> headers (fst (fetch now request)) = [(js ''Content-Type'', js ''text/html'')]
        \<and> headers (fst (handleRequest now request)) = [(js ''Content-Type'', js ''text/html'')])"
proof -
  have api: "header (fst (fetch now request)) (js ''Access-Control-Allow-Origin'') = Some (js ''*'')
        \<and> header (fst (handleRequest now request)) (js ''Access-Control-Allow-Origin'')
            = Some (js ''*'')"
    if "method request = js ''OPTIONS''
      \<or> pathname request = js ''/api/convert'' \<and> method request = js ''POST''
      \<or> pathname request = js ''/api/status'' \<and> method request = js ''GET''"
    using that unfolding fetch_def handleRequest_def
    by (auto simp: cors_handleConversion cors_handleVideoConversion cors_handleStatus
        cors_handleStatusCheck cors_handleCORS cors_preflight js_eq_iff)
  have page: "headers (fst (fetch now request)) = [(js ''Content-Type'', js ''text/html'')]
        \<and> headers (fst (handleRequest now request)) = [(js ''Content-Type'', js ''text/html'')]"
    if "pathname request = js ''/'' \<and> method request = js ''GET''"
    using that unfolding fetch_def handleRequest_def
    by (simp add: js_eq_iff)
  from api page show ?thesis by blast
qed

theorem cors_on_api_routes_witness:
  "pathname (upload_request \<lparr>name = js ''clip.MOV'', ftype = js ''video/mov'', bytes = [1, 2, 3]\<rparr>)
     = js ''/api/convert''
   \<and> method (upload_request \<lparr>name = js ''clip.MOV'', ftype = js ''video/mov'', bytes = [1, 2, 3]\<rparr>)
     = js ''POST''
   \<and> header (fst (fetch sample_now
        (upload_request \<lparr>name = js ''clip.MOV'', ftype = js ''video/mov'', bytes = [1, 2, 3]\<rparr>)))
        (js ''Access-Control-Allow-Origin'') = Some (js ''*'')
   \<and> header (fst (handleRequest sample_now
        (upload_request \<lparr>name = js ''clip.MOV'', ftype = js ''video/mov'', bytes = [1, 2, 3]\<rparr>)))
        (js ''Access-Control-Allow-Origin'') = Some (js ''*'')"
proof -
  let ?r = "upload_request \<lparr>name = js ''clip.MOV'', ftype = js ''video/mov'', bytes = [1, 2, 3]\<rparr>"
  have p: "pathname ?r = js ''/api/convert''" and m: "method ?r = js ''POST''"
    by (simp_all add: upload_request_def)
  from cors_on_api_routes [of ?r sample_now] p m
  show ?thesis by simp
qed

text \<open>
  The claim as first stated fails on the GET / page of both workers: its response has no
  \<open>Access-Control-Allow-Origin\<close> header.
\<close>

theorem cors_counterexample:
  "header (fst (fetch sample_now (plain_request (js ''GET'') (js ''/''))))
     (js ''Access-Control-Allow-Origin'') = None
   \<and> header (fst (handleRequest sample_now (plain_request (js ''GET'') (js ''/''))))
     (js ''Access-Control-Allow-Origin'') = None"
proof -
  show ?thesis
    by (simp add: fetch_def handleRequest_def plain_request_def js_eq_iff header_def)
qed

section \<open>Preflight\<close>

text \<open>
  C8 (amended). A request with method OPTIONS, whatever its path, form and headers, is
  answered before any path matching with status 200, no body and the preflight headers:
  by worker.js the allowed origin, methods and headers and
  \<open>Access-Control-Max-Age: 86400\<close>; by the second worker the allowed origin, methods and
  headers, and no \<open>Access-Control-Max-Age\<close>.
\<close>

theorem preflight_response:
  "fetch now (request\<lparr>method := js ''OPTIONS''\<rparr>) =
     (\<lparr>status = 200,
       headers = [(js ''Access-Control-Allow-Origin'', js ''*''),
                  (js ''Access-Control-Allow-Methods'', js ''GET, POST, OPTIONS''),
                  (js ''Access-Control-Allow-Headers'', js ''Content-Type, Authorization''),
                  (js ''Access-Control-Max-Age'', js ''86400'')],
       body = NoBody\<rparr>, [])
   \<and> handleRequest now (request\<lparr>method := js ''OPTIONS''\<rparr>) =
     (\<lparr>status = 200,
       headers = [(js ''Access-Control-Allow-Origin'', js ''*''),
                  (js ''Access-Control-Allow-Methods'', js ''POST, GET, OPTIONS''),
                  (js ''Access-Control-Allow-Headers'', js ''Content-Type'')],
       body = NoBody\<rparr>, [])"
  by (simp add: fetch_def handleRequest_def handleCORS_def)

text \<open>
  The claim as first stated fails on the second worker: \<open>handleCORS\<close> sets no
  \<open>Access-Control-Max-Age\<close>.
\<close>

theorem preflight_counterexample:
  "method (plain_request (js ''OPTIONS'') (js ''/api/convert'')) = js ''OPTIONS''
   \<and> header (fst (handleRequest sample_now (plain_request (js ''OPTIONS'') (js ''/api/convert''))))
       (js ''Access-Control-Max-Age'') = None"
proof -
  show ?thesis
    by (simp add: handleRequest_def plain_request_def handleCORS_def header_def js_eq_iff)
qed

section \<open>The status endpoint\<close>

text \<open>
  C6 (amended). GET /api/status returns 200 with a JSON body built from constants and
  the timestamp. In worker.js \<open>limits.supportedFormats\<close> is mp4, avi, mov, mkv, webm and
  \<open>limits.maxFileSize\<close> is "50MB"; in the second worker \<open>supported_formats\<close> is mp4, avi,
  mov, wmv, flv, webm and \<open>max_file_size\<close> is "50MB".
\<close>

theorem status_payload:
  "fetch now \<lparr>method = js ''GET'', pathname = js ''/api/status'', content_type = c, formData = d\<rparr>
     = (handleStatus now, [])
   \<and> status (handleStatus now) = 200
   \<and> limits_field (handleStatus now) (js ''supportedFormats'')
       = Some (JArray [JString (js ''mp4''), JString (js ''avi''), JString (js ''mov''),
                       JString (js ''mkv''), JString (js ''webm'')])
   \<and> limits_field (handleStatus now) (js ''maxFileSize'') = Some (JString (js ''50MB''))
   \<and> json_field (body (handleStatus now)) (js ''timestamp'') = Some (JString now)
   \<and> handleRequest now
        \<lparr>method = js ''GET'', pathname = js ''/api/status'', content_type = c, formData = d\<rparr>
     = (handleStatusCheck now, [])
   \<and> status (handleStatusCheck now) = 200
   \<and> json_field (body (handleStatusCheck now)) (js ''supported_formats'')
       = Some (JArray [JString (js ''mp4''), JString (js ''avi''), JString (js ''mov''),
                       JString (js ''wmv''), JString (js ''flv''), JString (js ''webm'')])
   \<and> json_field (body (handleStatusCheck now)) (js ''max_file_size'')
       = Some (JString (js ''50MB''))
   \<and> json_field (body (handleStatusCheck now)) (js ''timestamp'') = Some (JString now)"
  by (simp add: fetch_def handleRequest_def js_eq_iff handleStatus_def
      handleStatusCheck_def createResponse_def limits_field_def)

text \<open>
  The claim as first stated fails on worker.js: flv is in the canonical list of the
  specification and not in the \<open>supportedFormats\<close> it reports.
\<close>

theorem status_payload_counterexample:
  "limits_field (fst (fetch sample_now (plain_request (js ''GET'') (js ''/api/status''))))
       (js ''supportedFormats'')
     = Some (JArray [JString (js ''mp4''), JString (js ''avi''), JString (js ''mov''),
                     JString (js ''mkv''), JString (js ''webm'')])
   \<and> js ''flv'' \<in> set spec_formats
   \<and> js ''flv'' \<notin> set [js ''mp4'', js ''avi'', js ''mov'', js ''mkv'', js ''webm'']"
proof -
  have f: "js ''flv'' \<in> set spec_formats"
    by (simp add: spec_formats_def)
  have n: "js ''flv'' \<notin> set [js ''mp4'', js ''avi'', js ''mov'', js ''mkv'', js ''webm'']"
    by (simp add: js_eq_iff)
  from f n show ?thesis
    by (simp add: fetch_def plain_request_def js_eq_iff handleStatus_def
        limits_field_def)
qed

section \<open>Temporary files of the file-based server\<close>

text \<open>
  What the handler does by its paths: after the end event and the download callback,
  the upload and the MP3 file are gone; after an error event the upload stays; when
  \<open>res.download\<close> throws before its callback, the MP3 file stays.
\<close>

lemma post_convert_error_keeps_input:
  "inputPath \<in> fs \<Longrightarrow> inputPath \<in> fst (post_convert fs (Some inputPath) uuid (on_error w) dl)"
  by (simp add: post_convert_def ffmpeg_save_def Let_def)

lemma post_convert_end_cleans:
  assumes "inputPath \<in> fs" and "inputPath \<noteq> js ''output/'' @ uuid @ js ''.mp3''"
  shows "post_convert fs (Some inputPath) uuid on_end callback_fired
     = (fs - {inputPath, js ''output/'' @ uuid @ js ''.mp3''},
        downloaded (js ''output/'' @ uuid @ js ''.mp3''))"
  using assms
  by (auto simp: post_convert_def ffmpeg_save_def unlinkSync_def Let_def)

lemma post_convert_download_threw_keeps_output:
  assumes "inputPath \<in> fs" and "inputPath \<noteq> js ''output/'' @ uuid @ js ''.mp3''"
  shows "js ''output/'' @ uuid @ js ''.mp3''
     \<in> fst (post_convert fs (Some inputPath) uuid on_end download_threw)"
  using assms
  by (auto simp: post_convert_def ffmpeg_save_def unlinkSync_def Let_def)

text \<open>
  C7. The claim asks that the upload and the MP3 file be deleted on every exit path.
  The error handler of the ffmpeg command deletes nothing: after an error event the file
  system still holds the upload, and the output file when ffmpeg had created it.
\<close>

theorem post_convert_error_leaks:
  "fst (post_convert {js ''uploads/a1''} (Some (js ''uploads/a1'')) (js ''u1'') (on_error True)
          callback_fired)
     = {js ''output/u1.mp3'', js ''uploads/a1''}
   \<and> snd (post_convert {js ''uploads/a1''} (Some (js ''uploads/a1'')) (js ''u1'') (on_error True)
          callback_fired)
     = sent 500 (js ''Conversion failed'')
   \<and> js ''uploads/a1''
       \<in> fst (post_convert {js ''uploads/a1''} (Some (js ''uploads/a1'')) (js ''u1'')
              (on_error False) callback_fired)"
proof -
  have o: "js ''output/'' @ js ''u1'' @ js ''.mp3'' = js ''output/u1.mp3''"
    by (simp add: js_def)
  show ?thesis
    by (simp add: post_convert_def ffmpeg_save_def Let_def o)
qed

section \<open>The extension check and letter case\<close>

text \<open>
  Lower-casing never makes a dot out of another unit, so a name without a dot is never
  accepted. On a name of Basic Latin units, lower-casing keeps every unit in its place:
  the index of the last dot is the same in the name and in its lower-case form, and
  \<open>isVideoFile\<close> gives the same answer on both.
\<close>

lemma StringToCodePoints_bound:
  "\<forall>c\<in>set (StringToCodePoints s). c < 0x110000"
proof (induction s rule: StringToCodePoints.induct)
  case 1
  show ?case by simp
next
  case (2 u)
  have "unat u < 2 ^ 16" using unsigned_less [of u] by simp
  then show ?case by simp
next
  case (3 u v us)
  have "unat u < 2 ^ 16" using unsigned_less [of u] by simp
  with 3 show ?case by auto
qed

lemma StringToCodePoints_dot:
  "0x2E \<in> set (StringToCodePoints s) \<Longrightarrow> 0x2E \<in> set s"
proof (induction s rule: StringToCodePoints.induct)
  case 1
  then show ?case by simp
next
  case (2 u)
  then have "unat u = unat (0x2E :: 16 word)" by simp
  then have "u = 0x2E" by (simp only: word_unat_eq_iff)
  then show ?case by simp
next
  case (3 u v us)
  show ?case
  proof (cases "0xD800 \<le> unat u \<and> unat u \<le> 0xDBFF \<and> 0xDC00 \<le> unat v \<and> unat v \<le> 0xDFFF")
    case True
    with 3 show ?thesis by auto
  next
    case False
    with 3(3) have "unat u = 0x2E \<or> 0x2E \<in> set (StringToCodePoints (v # us))" by auto
    then show ?thesis
    proof
      assume "unat u = 0x2E"
      then have "unat u = unat (0x2E :: 16 word)" by simp
      then have "u = 0x2E" by (simp only: word_unat_eq_iff)
      then show ?thesis by simp
    next
      assume "0x2E \<in> set (StringToCodePoints (v # us))"
      with 3(2) False show ?thesis by auto
    qed
  qed
qed

lemma lower_cp_out:
  assumes "c < 0x110000" and "l \<in> set (lower_cp before c after)"
  shows "l < 0x110000 \<and> (l = 0x2E \<longrightarrow> c = 0x2E)"
proof (cases "lookup_lower lower_table c")
  case None
  with assms show ?thesis by (auto simp: lower_cp_def split: if_splits)
next
  case (Some m)
  from lookup_lower_range [OF lower_table_bounds Some] have "0x61 \<le> m \<and> m < 0x110000" .
  with Some assms show ?thesis by (auto simp: lower_cp_def split: if_splits)
qed

lemma lower_cps_out:
  "\<forall>c\<in>set cs. c < 0x110000 \<Longrightarrow> l \<in> set (lower_cps before cs)
     \<Longrightarrow> l < 0x110000 \<and> (l = 0x2E \<longrightarrow> 0x2E \<in> set cs)"
proof (induction cs arbitrary: before)
  case Nil
  then show ?case by simp
next
  case (Cons c cs)
  from Cons.prems(2) have "l \<in> set (lower_cp before c cs) \<or> l \<in> set (lower_cps (c # before) cs)"
    by simp
  then show ?case
  proof
    assume "l \<in> set (lower_cp before c cs)"
    with Cons.prems(1) lower_cp_out [of c l before cs] show ?thesis by auto
  next
    assume "l \<in> set (lower_cps (c # before) cs)"
    with Cons.IH [of "c # before"] Cons.prems(1) show ?thesis by auto
  qed
qed

lemma surrogate_not_dot:
  assumes "0xD800 \<le> n" and "n < 0xE000"
  shows "(of_nat n :: 16 word) \<noteq> 0x2E"
proof
  assume "(of_nat n :: 16 word) = 0x2E"
  then have "unat (of_nat n :: 16 word) = 0x2E" by simp
  moreover have "unat (of_nat n :: 16 word) = n"
    using assms by (simp add: unat_of_nat)
  ultimately show False using assms by simp
qed

lemma bmp_dot:
  assumes "n < 0x10000" and "(of_nat n :: 16 word) = 0x2E"
  shows "n = 0x2E"
proof -
  have "unat (of_nat n :: 16 word) = n"
    using assms(1) by (simp add: unat_of_nat)
  with assms(2) show ?thesis by simp
qed

lemma CodePointsToString_dot:
  "\<forall>c\<in>set cs. c < 0x110000 \<Longrightarrow> 0x2E \<in> set (CodePointsToString cs) \<Longrightarrow> 0x2E \<in> set cs"
proof (induction cs)
  case Nil
  then show ?case by simp
next
  case (Cons c cs)
  show ?case
  proof (cases "c < 0x10000")
    case True
    with Cons bmp_dot [of c] show ?thesis by auto
  next
    case False
    with Cons.prems(1) have "c - 0x10000 < 0x400 * 0x400" by auto
    then have "(c - 0x10000) div 0x400 < 0x400"
      by (simp only: less_mult_imp_div_less)
    then have h: "(of_nat (0xD800 + (c - 0x10000) div 0x400) :: 16 word) \<noteq> 0x2E"
      by (intro surrogate_not_dot) simp_all
    have "(c - 0x10000) mod 0x400 < 0x400" by simp
    then have l: "(of_nat (0xDC00 + (c - 0x10000) mod 0x400) :: 16 word) \<noteq> 0x2E"
      by (intro surrogate_not_dot) simp_all
    from False Cons h l show ?thesis by auto
  qed
qed

lemma toLowerCase_no_dot: "0x2E \<notin> set n \<Longrightarrow> 0x2E \<notin> set (toLowerCase n)"
proof
  assume n: "0x2E \<notin> set n" and d: "0x2E \<in> set (toLowerCase n)"
  have b: "\<forall>c\<in>set (StringToCodePoints n). c < 0x110000"
    by (rule StringToCodePoints_bound)
  then have "\<forall>l\<in>set (lower_cps [] (StringToCodePoints n)). l < 0x110000"
    using lower_cps_out by blast
  then have "0x2E \<in> set (lower_cps [] (StringToCodePoints n))"
    using d unfolding toLowerCase_def by (rule CodePointsToString_dot)
  with b have "0x2E \<in> set (StringToCodePoints n)"
    using lower_cps_out by blast
  then have "0x2E \<in> set n" by (rule StringToCodePoints_dot)
  with n show False by simp
qed

lemma lastIndexOf_absent: "c \<notin> set s \<Longrightarrow> lastIndexOf s c = - 1"
  by (induction s) (auto simp: Let_def)

lemma videoExtensions_dot: "e \<in> set videoExtensions \<Longrightarrow> 0x2E \<in> set e"
  by (auto simp: videoExtensions_def js_def)

lemma isVideoFile_no_dot: "0x2E \<notin> set n \<Longrightarrow> \<not> isVideoFile n"
proof
  assume n: "0x2E \<notin> set n" and v: "isVideoFile n"
  from n have "lastIndexOf n 0x2E = - 1" by (rule lastIndexOf_absent)
  with v have "toLowerCase n \<in> set videoExtensions"
    by (simp add: isVideoFile_def substring_def array_includes_def)
  then have "0x2E \<in> set (toLowerCase n)" by (rule videoExtensions_dot)
  with toLowerCase_no_dot [OF n] show False by simp
qed

lemma unat_plus_32:
  fixes c :: "16 word"
  assumes "unat c \<le> 254"
  shows "unat (c + 0x20) = unat c + 32"
proof -
  have "unat c + unat (0x20 :: 16 word) < 2 ^ LENGTH(16)"
    using assms by simp
  then have "unat (c + 0x20) = unat c + unat (0x20 :: 16 word)"
    by (simp only: unat_add_lem)
  then show ?thesis by simp
qed

lemma ascii_lower_unit:
  fixes u :: "16 word"
  assumes "u < 0x80"
  shows "let l = (if 0x41 \<le> u \<and> u \<le> 0x5A then u + 0x20 else u)
         in l < 0x80 \<and> (l = 0x2E \<longleftrightarrow> u = 0x2E)
            \<and> (if 0x41 \<le> l \<and> l \<le> 0x5A then l + 0x20 else l) = l"
proof (cases "0x41 \<le> u \<and> u \<le> 0x5A")
  case True
  then have r: "65 \<le> unat u \<and> unat u \<le> 90" by (simp add: word_le_nat_alt)
  then have p: "unat (u + 0x20) = unat u + 32" by (intro unat_plus_32) simp
  have 1: "u + 0x20 < 0x80" using r p by (simp add: word_less_nat_alt)
  have "unat (u + 0x20) \<noteq> 46" using r p by simp
  then have 2: "u + 0x20 \<noteq> 0x2E" by auto
  have "unat u \<noteq> 46" using r by simp
  then have 3: "u \<noteq> 0x2E" by auto
  have 4: "\<not> u + 0x20 \<le> 0x5A" using r p by (simp add: word_le_nat_alt)
  from True 1 2 3 4 show ?thesis by (simp add: Let_def)
next
  case False
  then have "(if 0x41 \<le> u \<and> u \<le> 0x5A then u + 0x20 else u) = u" by simp
  with assms False show ?thesis by (simp only: Let_def)
qed

lemma isVideoFile_toLowerCase_ascii:
  assumes "\<forall>u\<in>set n. u < 0x80"
  shows "isVideoFile (toLowerCase n) = isVideoFile n"
proof -
  define l where "l = (\<lambda>u :: 16 word. if 0x41 \<le> u \<and> u \<le> 0x5A then u + 0x20 else u)"
  have tl: "toLowerCase s = map l s" if "\<forall>u\<in>set s. u < 0x80" for s
    using toLowerCase_ascii [OF that] by (simp add: l_def)
  have p: "l u < 0x80 \<and> (l u = 0x2E \<longleftrightarrow> u = 0x2E) \<and> l (l u) = l u" if "u < 0x80" for u
    using ascii_lower_unit [OF that] by (simp add: l_def Let_def)
  have low: "\<forall>u\<in>set (map l n). u < 0x80"
    using assms p by auto
  have idem: "map l (map l n) = map l n"
    using assms p by (induction n) auto
  have idx: "lastIndexOf (map l n) 0x2E = lastIndexOf n 0x2E"
    using assms p by (induction n) (auto simp: Let_def)
  show ?thesis
    unfolding isVideoFile_def tl [OF assms] tl [OF low] idem idx ..
qed

lemma isVideoFile_CLIP_MP4: "isVideoFile (js ''CLIP.MP4'')"
  by (simp add: isVideoFile_def toLowerCase_ascii substring_def
      array_includes_def videoExtensions_def js_def Let_def)

lemma CLIP_MP4_passes:
  assumes "fsize \<lparr>name = js ''CLIP.MP4'', ftype = t, bytes = b\<rparr> \<le> 50 * 1024 * 1024"
  shows "status (fst (handleConversion now
            (upload_request \<lparr>name = js ''CLIP.MP4'', ftype = t, bytes = b\<rparr>))) = 200"
proof -
  let ?f = "\<lparr>name = js ''CLIP.MP4'', ftype = t, bytes = b\<rparr>"
  note h = upload_request_hyps [of ?f]
  from assms show ?thesis
    by (simp add: handleConversion_upload [OF h(1) sample_content_type h(2) h(3)]
        isVideoFile_CLIP_MP4 maxSize_def del: toString.simps)
qed

text \<open>
  C10. The claim asks that \<open>isVideoFile\<close> give the same answer on a name and on its
  lower-case form. \<open>isVideoFile\<close> takes the index of the last dot in the name as it is and
  cuts the lower-cased name there. On the name U+0130 followed by \<open>.mp4\<close> the lower-case
  form is one unit longer, the cut starts one unit before the dot, and the name is
  rejected although its lower-case form is accepted: with an empty declared type the
  first upload gets 400 and the second 200.
\<close>

theorem isVideoFile_dotted_capital_I:
  "toLowerCase [0x130, 0x2E, 0x6D, 0x70, 0x34] = [0x69, 0x307, 0x2E, 0x6D, 0x70, 0x34]
   \<and> \<not> isVideoFile [0x130, 0x2E, 0x6D, 0x70, 0x34]
   \<and> isVideoFile (toLowerCase [0x130, 0x2E, 0x6D, 0x70, 0x34])
   \<and> status (fst (handleConversion sample_now
        (upload_request \<lparr>name = [0x130, 0x2E, 0x6D, 0x70, 0x34], ftype = [], bytes = [1, 2, 3]\<rparr>)))
       = 400
   \<and> status (fst (handleConversion sample_now
        (upload_request \<lparr>name = toLowerCase [0x130, 0x2E, 0x6D, 0x70, 0x34], ftype = [],
           bytes = [1, 2, 3]\<rparr>)))
       = 200"
proof -
  note l = toLowerCase_dotted_I
  have a: "\<not> isVideoFile [0x130, 0x2E, 0x6D, 0x70, 0x34]"
    by (simp add: isVideoFile_def toLowerCase_dotted_I substring_def
        array_includes_def videoExtensions_def js_def Let_def)
  have b: "isVideoFile [0x69, 0x307, 0x2E, 0x6D, 0x70, 0x34]"
    by (simp add: isVideoFile_def toLowerCase_i_dot substring_def
        array_includes_def videoExtensions_def js_def Let_def)
  have t: "\<not> array_includes allowedTypes []"
    by (simp add: array_includes_def allowedTypes_def js_def)
  let ?f = "\<lparr>name = [0x130, 0x2E, 0x6D, 0x70, 0x34], ftype = [], bytes = [1, 2, 3]\<rparr>"
  let ?g = "\<lparr>name = [0x69, 0x307, 0x2E, 0x6D, 0x70, 0x34], ftype = [], bytes = [1, 2, 3]\<rparr>"
  note hf = upload_request_hyps [of ?f]
  note hg = upload_request_hyps [of ?g]
  have sf: "status (fst (handleConversion sample_now (upload_request ?f))) = 400"
    using a t
    by (simp add: handleConversion_upload [OF hf(1) sample_content_type hf(2) hf(3)]
        status_createErrorResponse del: toString.simps)
  have sg: "status (fst (handleConversion sample_now (upload_request ?g))) = 200"
    using b t
    by (simp add: handleConversion_upload [OF hg(1) sample_content_type hg(2) hg(3)]
        maxSize_def fsize_def del: toString.simps)
  from l a b sf sg show ?thesis by simp
qed

end
